theory Spec2Isabelle
  imports Main "HOL-Library.Sublist" "HOL-Library.Multiset"
begin

section \<open>Go library functions used by package sandbox\<close>

text \<open>
  Go strings are byte sequences; they are modelled as \<open>string\<close> (lists of 8-bit
  characters). \<open>strings.HasPrefix\<close>, \<open>strings.Contains\<close> and \<open>strings.Cut\<close> (with
  a one-byte separator, the only way the package calls it) are written out.
\<close>

definition HasPrefix :: "string \<Rightarrow> string \<Rightarrow> bool" where
  "HasPrefix s pre = prefix pre s"

fun Contains :: "string \<Rightarrow> string \<Rightarrow> bool" where
  "Contains [] substr = (substr = [])"
| "Contains (c # s) substr = (prefix substr (c # s) \<or> Contains s substr)"

fun Cut :: "string \<Rightarrow> char \<Rightarrow> string \<times> string \<times> bool" where
  "Cut [] sep = ([], [], False)"
| "Cut (c # s) sep =
     (if c = sep then ([], s, True)
      else (case Cut s sep of (before, after, found) \<Rightarrow> (c # before, after, found)))"

text \<open>\<open>strconv.Itoa\<close>: decimal digits, most significant first, with a minus sign.\<close>

definition digit_char :: "nat \<Rightarrow> char" where
  "digit_char d = ''0123456789'' ! d"

fun nat_digits :: "nat \<Rightarrow> string" where
  "nat_digits n = (if n < 10 then [digit_char n] else nat_digits (n div 10) @ [digit_char (n mod 10)])"

declare nat_digits.simps [simp del]

definition Itoa :: "int \<Rightarrow> string" where
  "Itoa n = (if n < 0 then CHR ''-'' # nat_digits (nat (- n)) else nat_digits (nat n))"

section \<open>Data model\<close>

text \<open>
  \<open>IsolateBox\<close> without its mutex: the model is sequential. \<open>boxID\<close> is a Go
  \<open>int\<close>, modelled as an integer.
\<close>

record IsolateBox =
  path :: string
  boxID :: int

record Directory =
  In :: string
  Out :: string
  Opts :: string
  Removes :: bool
  Verbatim :: bool

text \<open>
  \<open>RunConfig\<close>. The type parameter \<open>'f\<close> stands for \<open>float64\<close>: the package only
  compares such values with \<open>0\<close> and hands them to \<open>strconv\<close>, whose conversions
  are parameters of the model. \<open>EnvToSet\<close> is a Go map, \<open>None\<close> when nil.
\<close>

record 'f RunConfig =
  StderrToStdout :: bool
  InputPath :: string
  OutputPath :: string
  StderrPath :: string
  MemoryLimit :: int
  TimeLimit :: 'f
  WallTimeLimit :: 'f
  InheritEnv :: bool
  EnvToInherit :: "string list"
  EnvToSet :: "(string \<rightharpoonup> string) option"
  Directories :: "Directory list"

section \<open>buildRunFlags\<close>

text \<open>The loop over \<open>c.Directories\<close>, appending one flag to \<open>res\<close> per rule.\<close>

fun dirFlags :: "string list \<Rightarrow> Directory list \<Rightarrow> string list" where
  "dirFlags res [] = res"
| "dirFlags res (dir # dirs) =
     (if Removes dir then dirFlags (res @ [''--dir='' @ In dir @ ''='']) dirs
      else
        let toAdd = ''--dir='';
            toAdd = toAdd @ In dir;
            toAdd = (if Out dir = ''''
                     then (if \<not> Verbatim dir then toAdd @ ''='' @ In dir else toAdd)
                     else toAdd @ ''='' @ Out dir);
            toAdd = (if Opts dir \<noteq> '''' then toAdd @ '':'' @ Opts dir else toAdd)
        in dirFlags (res @ [toAdd]) dirs)"

text \<open>The loop over \<open>c.EnvToInherit\<close>.\<close>

fun inheritFlags :: "string list \<Rightarrow> string list \<Rightarrow> string list" where
  "inheritFlags res [] = res"
| "inheritFlags res (env # envs) = inheritFlags (res @ [''--env='' @ env]) envs"

text \<open>
  The loop \<open>for key, val := range c.EnvToSet\<close>. Go does not specify the order in which
  \<open>range\<close> visits the entries of a map, and the runtime varies it from one loop to the
  next. The order of one execution of the loop is therefore an argument: a list
  \<open>kvs\<close> of the entries with \<open>map_range m kvs\<close>.
\<close>

definition map_range :: "(string \<rightharpoonup> string) \<Rightarrow> (string \<times> string) list \<Rightarrow> bool" where
  "map_range m kvs = (distinct (map fst kvs) \<and> map_of kvs = m)"

fun setFlags :: "string list \<Rightarrow> (string \<times> string) list \<Rightarrow> string list" where
  "setFlags res [] = res"
| "setFlags res ((key, val) # kvs) = setFlags (res @ [''--env='' @ key @ ''='' @ val]) kvs"

text \<open>
  \<open>buildRunFlags\<close> writes the defaults of the stdio paths into \<open>*c\<close>, so the model
  returns the flags together with the configuration as the call leaves it.
  \<open>FormatFloat x\<close> stands for \<open>strconv.FormatFloat(x, 'f', -1, 64)\<close>; \<open>metaFile\<close>
  is the name of the report file, \<open>None\<close> for a nil \<open>*os.File\<close>; \<open>envOrder\<close> is the
  order in which this call's \<open>range\<close> visits \<open>c.EnvToSet\<close>.
\<close>

definition buildRunFlags ::
  "('f::zero \<Rightarrow> string) \<Rightarrow> IsolateBox \<Rightarrow> 'f RunConfig \<Rightarrow> string option
    \<Rightarrow> (string \<times> string) list \<Rightarrow> string list \<times> 'f RunConfig" where
  "buildRunFlags FormatFloat b c metaFile envOrder =
     (let res = [''--box-id='' @ Itoa (boxID b)];
          res = res @ [''--cg'', ''--processes''];
          res = dirFlags res (Directories c);
          res = (if InheritEnv c then res @ [''--full-env''] else res);
          res = inheritFlags res (EnvToInherit c);
          res = (case EnvToSet c of None \<Rightarrow> res | Some m \<Rightarrow> setFlags res envOrder);
          res = (if TimeLimit c \<noteq> 0 then res @ [''--time='' @ FormatFloat (TimeLimit c)] else res);
          res = (if WallTimeLimit c \<noteq> 0
                 then res @ [''--wall-time='' @ FormatFloat (WallTimeLimit c)] else res);
          res = (if MemoryLimit c \<noteq> 0 then res @ [''--cg-mem='' @ Itoa (MemoryLimit c)] else res);
          c = (if InputPath c = '''' then c\<lparr>InputPath := ''/dev/null''\<rparr> else c);
          c = (if OutputPath c = '''' then c\<lparr>OutputPath := ''/dev/null''\<rparr> else c);
          res = res @ [''--stdin='' @ InputPath c];
          res = res @ [''--stdout='' @ OutputPath c];
          (res, c) = (if StderrToStdout c then (res @ [''--stderr-to-stdout''], c)
                      else
                        let c = (if StderrPath c = '''' then c\<lparr>StderrPath := ''/dev/null''\<rparr> else c)
                        in (res @ [''--stderr='' @ StderrPath c], c));
          res = (case metaFile of None \<Rightarrow> res | Some name \<Rightarrow> res @ [''--meta='' @ name]);
          res = res @ [''--silent'', ''--run'', ''--'']
      in (res, c))"

section \<open>The report decoder\<close>

text \<open>
  \<open>strconv.Atoi\<close> on a 64-bit platform, as \<open>strconv.ParseInt(s, 10, 0)\<close> computes it
  (the fast path of \<open>Atoi\<close> for texts of fewer than 19 bytes gives the same results).
  \<open>ParseUint\<close> reads the bytes after the sign from left to right: the first byte that
  is no digit ends it with \<open>0\<close> and a syntax error, and the first digit with which the
  number no longer fits 64 bits ends it with the largest value and a range error,
  whatever follows. \<open>ParseInt\<close> returns \<open>0\<close> for the syntax error and, for a number
  outside the range of \<open>int\<close>, the nearest bound and a range error.
\<close>

datatype NumError = ErrSyntax | ErrRange

definition is_digit :: "char \<Rightarrow> bool" where
  "is_digit ch = (48 \<le> (of_char ch :: nat) \<and> (of_char ch :: nat) \<le> 57)"

fun scan_uint :: "nat \<Rightarrow> string \<Rightarrow> nat \<times> NumError option" where
  "scan_uint n [] = (n, None)"
| "scan_uint n (ch # s) =
     (if \<not> is_digit ch then (0, Some ErrSyntax)
      else if n * 10 + (of_char ch - 48) > 2 ^ 64 - 1 then (2 ^ 64 - 1, Some ErrRange)
      else scan_uint (n * 10 + (of_char ch - 48)) s)"

definition ParseUint :: "string \<Rightarrow> nat \<times> NumError option" where
  "ParseUint s = (if s = [] then (0, Some ErrSyntax) else scan_uint 0 s)"

definition split_sign :: "string \<Rightarrow> bool \<times> string" where
  "split_sign s =
     (case s of
        [] \<Rightarrow> (False, [])
      | ch # t \<Rightarrow>
          if ch = CHR ''+'' then (False, t) else if ch = CHR ''-'' then (True, t) else (False, s))"

definition Atoi :: "string \<Rightarrow> int \<times> NumError option" where
  "Atoi s =
     (if s = [] then (0, Some ErrSyntax)
      else
        case split_sign s of (neg, body) \<Rightarrow>
          case ParseUint body of (un, err) \<Rightarrow>
            if err = Some ErrSyntax then (0, err)
            else if \<not> neg \<and> un \<ge> 2 ^ 63 then (2 ^ 63 - 1, Some ErrRange)
            else if neg \<and> un > 2 ^ 63 then (- (2 ^ 63), Some ErrRange)
            else (if neg then - int un else int un, None))"

text \<open>
  \<open>bufio.Scanner\<close> with its default split function \<open>bufio.ScanLines\<close>: the tokens that
  successive calls of \<open>Scan\<close> deliver. A line ends at a newline; one trailing carriage
  return is dropped; a last line without newline is delivered when it is not empty; and
  the scanner stops for good at a line that does not fit its buffer of
  \<open>MaxScanTokenSize\<close> bytes. \<open>cur\<close> holds the bytes of the line read so far.
\<close>

definition MaxScanTokenSize :: nat where
  "MaxScanTokenSize = 64 * 1024"

definition dropCR :: "string \<Rightarrow> string" where
  "dropCR l = (if l \<noteq> [] \<and> last l = CHR 0x0D then butlast l else l)"

fun scanFrom :: "string \<Rightarrow> string \<Rightarrow> string list" where
  "scanFrom cur [] = (if cur = [] then [] else [dropCR cur])"
| "scanFrom cur (ch # rest) =
     (if ch = CHR 0x0A then dropCR cur # scanFrom [] rest
      else if MaxScanTokenSize \<le> length cur + 1 then []
      else scanFrom (cur @ [ch]) rest)"

definition ScanLines :: "string \<Rightarrow> string list" where
  "ScanLines text = scanFrom [] text"

record 'f RunStats =
  Memory :: int
  ExitCode :: int
  ExitSignal :: int
  Killed :: bool
  Message :: string
  Status :: string
  Time :: 'f
  InternalMessage :: string

text \<open>\<open>new(RunStats)\<close>: every field has its zero value.\<close>

definition newRunStats :: "'f::zero RunStats" where
  "newRunStats =
     \<lparr>Memory = 0, ExitCode = 0, ExitSignal = 0, Killed = False, Message = [],
      Status = [], Time = 0, InternalMessage = []\<rparr>"

text \<open>
  The body of the loop \<open>for s.Scan()\<close> of \<open>parseMetaFile\<close>, on the line \<open>s.Text()\<close>.
  \<open>ParseFloat val\<close> stands for \<open>strconv.ParseFloat(val, 64)\<close>; like \<open>Atoi\<close> it returns
  a value and an error, and the code keeps the value and drops the error. The line the
  \<open>default\<close> case writes to the log is not modelled.
\<close>

definition parseLine ::
  "(string \<Rightarrow> 'f \<times> NumError option) \<Rightarrow> 'f RunStats \<Rightarrow> string \<Rightarrow> 'f RunStats" where
  "parseLine ParseFloat file line =
     (case Cut line CHR '':'' of (key, val, found) \<Rightarrow>
        if \<not> found then file
        else if key = ''cg-mem'' then file\<lparr>Memory := fst (Atoi val)\<rparr>
        else if key = ''exitcode'' then file\<lparr>ExitCode := fst (Atoi val)\<rparr>
        else if key = ''exitsig'' then file\<lparr>ExitSignal := fst (Atoi val)\<rparr>
        else if key = ''killed'' then file\<lparr>Killed := True\<rparr>
        else if key = ''message'' then file\<lparr>Message := val\<rparr>
        else if key = ''status'' then file\<lparr>Status := val\<rparr>
        else if key = ''time'' then file\<lparr>Time := fst (ParseFloat val)\<rparr>
        else if key = ''time-wall'' then file
        else if key \<in> set [''max-rss'', ''csw-voluntary'', ''csw-forced'', ''cg-enabled'',
                             ''cg-oom-killed''] then file
        else file)"

text \<open>
  \<open>parseMetaFile\<close>: \<open>r\<close> is the text the reader delivers, \<open>None\<close> for a nil reader;
  \<open>out\<close> is the content of the buffer.
\<close>

definition parseMetaFile ::
  "(string \<Rightarrow> 'f \<times> NumError option) \<Rightarrow> string option \<Rightarrow> string \<Rightarrow> 'f::zero RunStats option" where
  "parseMetaFile ParseFloat r out =
     (case r of
        None \<Rightarrow> None
      | Some text \<Rightarrow>
          Some (foldl (parseLine ParseFloat) (newRunStats\<lparr>InternalMessage := out\<rparr>) (ScanLines text)))"

section \<open>Running a command\<close>

text \<open>
  The functions of the Go library whose results the package only passes on:
  \<open>FormatFloat x\<close> for \<open>strconv.FormatFloat(x, 'f', -1, 64)\<close>, \<open>ParseFloat\<close>, and
  \<open>Join\<close> for \<open>path.Join\<close> of two elements.
\<close>

record 'f golib =
  FormatFloat :: "'f \<Rightarrow> string"
  ParseFloat :: "string \<Rightarrow> 'f \<times> NumError option"
  Join :: "string \<Rightarrow> string \<Rightarrow> string"

text \<open>
  What the operating system answers during one call of \<open>RunCommand\<close>. \<open>Stat p\<close> is the
  error of \<open>os.Stat(p)\<close>. The other fields are indexed by the attempt \<open>i\<close>:
  \<open>CreateTemp i\<close> is the name of the temporary file, \<open>None\<close> when its creation
  fails; \<open>Run i params\<close> is what running isolate with \<open>params\<close> gives: the error of
  \<open>cmd.Run()\<close>, the combined output of isolate, and the text then read from the meta
  file; \<open>rangeOrder i\<close> is the order in which that attempt's \<open>range\<close> visits
  \<open>EnvToSet\<close>.
\<close>

datatype StatError = StatOk | ErrNotExist | StatFailed string

datatype RunError = RunOk | ExitError | RunFailed string

record process =
  runErr :: RunError
  isolateOut :: string
  metaText :: string

record world =
  Stat :: "string \<Rightarrow> StatError"
  CreateTemp :: "nat \<Rightarrow> string option"
  Run :: "nat \<Rightarrow> string list \<Rightarrow> process"
  rangeOrder :: "nat \<Rightarrow> (string \<times> string) list"

text \<open>
  What a call does to the outside, in order: lines it logs, isolate processes it runs
  (with their arguments), sleeps (in milliseconds) and files it removes.
\<close>

datatype log_line =
  ExecutableMissing int
| StatProblem string
| TempFileProblem
| RunErrorRetrying int nat nat

datatype event = Logged log_line | Spawned "string list" | Slept nat | Removed string

definition runErrRetries :: nat where
  "runErrRetries = 3"

definition runErrTimeout :: nat where
  "runErrTimeout = 200"

definition getFilePath :: "'f golib \<Rightarrow> IsolateBox \<Rightarrow> string \<Rightarrow> string" where
  "getFilePath lib b boxpath = Join lib (path b) boxpath"

text \<open>
  \<open>runCommand\<close>, given what running isolate gave. An error of \<open>cmd.Run()\<close> that is not
  an \<open>*exec.ExitError\<close> is returned before the deferred calls are registered; otherwise
  the meta file is parsed, then removed. The result is the report, the error and the
  events.
\<close>

definition runCommand ::
  "'f::zero golib \<Rightarrow> process \<Rightarrow> string list \<Rightarrow> string \<Rightarrow> 'f RunStats option \<times> string option \<times> event list" where
  "runCommand lib p params metaFile =
     (case runErr p of
        RunFailed e \<Rightarrow> (None, Some e, [Spawned params])
      | _ \<Rightarrow> (parseMetaFile (ParseFloat lib) (Some (metaText p)) (isolateOut p), None,
               [Spawned params, Removed metaFile]))"

text \<open>
  The variables of \<open>RunCommand\<close> that its loop changes: the configuration behind \<open>conf\<close>,
  \<open>meta\<close>, the files whose removal is deferred (last first) and the events so far.
\<close>

record 'f run_state =
  conf :: "'f RunConfig"
  meta :: "'f RunStats option"
  deferred :: "string list"
  events :: "event list"

text \<open>One pass through the body of the loop ends in \<open>continue\<close> (or its end) or in \<open>return\<close>.\<close>

datatype ('r, 's) flow = Continue 's | Return 'r 's

definition attempt ::
  "'f::zero golib \<Rightarrow> world \<Rightarrow> IsolateBox \<Rightarrow> string list \<Rightarrow> nat \<Rightarrow> 'f run_state
    \<Rightarrow> ('f RunStats option \<times> string option, 'f run_state) flow" where
  "attempt lib w b command i st =
     (case CreateTemp w i of
        None \<Rightarrow> Continue (st\<lparr>events := events st @ [Logged TempFileProblem]\<rparr>)
      | Some metaFile \<Rightarrow>
          let st = st\<lparr>deferred := metaFile # deferred st\<rparr>;
              (flags, c) = buildRunFlags (FormatFloat lib) b (conf st) (Some metaFile) (rangeOrder w i);
              st = st\<lparr>conf := c\<rparr>;
              params = flags @ command;
              (m, err, evs) = runCommand lib (Run w i params) params metaFile;
              st = st\<lparr>meta := m, events := events st @ evs\<rparr>
          in
            if err = None \<and> m \<noteq> None \<and> Status (the m) \<noteq> ''XX'' then
              if ExitCode (the m) = 127 \<and> Contains (InternalMessage (the m)) ''execve''
              then Continue (st\<lparr>events := events st @ [Slept runErrTimeout]\<rparr>)
              else Return (m, err) st
            else
              let st = (if i > 1
                        then st\<lparr>events := events st @ [Logged (RunErrorRetrying (boxID b) i runErrRetries)]\<rparr>
                        else st)
              in Continue (st\<lparr>events := events st @ [Slept runErrTimeout]\<rparr>))"

function RunCommand_loop ::
  "'f::zero golib \<Rightarrow> world \<Rightarrow> IsolateBox \<Rightarrow> string list \<Rightarrow> nat \<Rightarrow> 'f run_state
    \<Rightarrow> ('f RunStats option \<times> string option) \<times> 'f run_state" where
  "RunCommand_loop lib w b command i st =
     (if i \<le> runErrRetries then
        (case attempt lib w b command i st of
           Continue st' \<Rightarrow> RunCommand_loop lib w b command (i + 1) st'
         | Return r st' \<Rightarrow> (r, st'))
      else ((meta st, None), st))"
  by pat_completeness auto
termination
  by (relation "measure (\<lambda>(lib, w, b, command, i, st). Suc runErrRetries - i)") auto

declare RunCommand_loop.simps [simp del]

text \<open>
  A call either panics or returns. \<open>RunCommand\<close> indexes \<open>command[0]\<close> first, which
  panics on an empty slice. The result is the outcome, the events of the call (the
  deferred removals run when the function returns) and the configuration as the call
  leaves it.
\<close>

datatype 'r outcome = Panic | Returns 'r

definition RunCommand ::
  "'f::zero golib \<Rightarrow> world \<Rightarrow> IsolateBox \<Rightarrow> string list \<Rightarrow> 'f RunConfig
    \<Rightarrow> ('f RunStats option \<times> string option) outcome \<times> event list \<times> 'f RunConfig" where
  "RunCommand lib w b command c =
     (case command of
        [] \<Rightarrow> (Panic, [], c)
      | command0 # _ \<Rightarrow>
          let evs =
                (if HasPrefix command0 ''/box'' then
                   (case Stat w (getFilePath lib b command0) of
                      StatOk \<Rightarrow> []
                    | ErrNotExist \<Rightarrow> [Logged (ExecutableMissing (boxID b))]
                    | StatFailed e \<Rightarrow> [Logged (StatProblem e)])
                 else []);
              (r, st) = RunCommand_loop lib w b command 1
                          \<lparr>conf = c, meta = None, deferred = [], events = evs\<rparr>
          in (Returns r, events st @ map Removed (deferred st), conf st))"

section \<open>MakeGoodCommand\<close>

text \<open>
  \<open>LookPath\<close> and \<open>EvalSymlinks\<close> answer for the file system: an error (\<open>Inl\<close>) or a
  path. \<open>tmp[0]\<close> is read before anything else, so an empty \<open>command\<close> panics.
\<close>

definition MakeGoodCommand ::
  "(string \<Rightarrow> string + string) \<Rightarrow> (string \<Rightarrow> string + string) \<Rightarrow> string list
    \<Rightarrow> (string list option \<times> string option) outcome" where
  "MakeGoodCommand LookPath EvalSymlinks command =
     (let tmp = command in
        case tmp of
          [] \<Rightarrow> Panic
        | tmp0 # _ \<Rightarrow>
            if HasPrefix tmp0 ''/box'' then Returns (Some tmp, None)
            else
              (case LookPath tmp0 of
                 Inl err \<Rightarrow> Returns (None, Some err)
               | Inr cmd \<Rightarrow>
                   (case EvalSymlinks cmd of
                      Inl err \<Rightarrow> Returns (None, Some err)
                    | Inr cmd \<Rightarrow> Returns (Some (tmp[0 := cmd]), None))))"

section \<open>Creating a box\<close>

text \<open>
  \<open>strings.TrimSpace\<close> removes the leading and the trailing white space of a string,
  rune by rune. \<open>space_runes\<close> lists the UTF-8 encodings of the runes that
  \<open>unicode.IsSpace\<close> accepts: the six ASCII ones, U+0085, U+00A0, U+1680, U+2000 to
  U+200A, U+2028, U+2029, U+202F, U+205F and U+3000.
\<close>

definition space_runes :: "string list" where
  "space_runes =
     [[CHR 0x09], [CHR 0x0A], [CHR 0x0B], [CHR 0x0C], [CHR 0x0D], [CHR 0x20],
      [CHR 0xC2, CHR 0x85], [CHR 0xC2, CHR 0xA0],
      [CHR 0xE1, CHR 0x9A, CHR 0x80],
      [CHR 0xE2, CHR 0x80, CHR 0x80], [CHR 0xE2, CHR 0x80, CHR 0x81],
      [CHR 0xE2, CHR 0x80, CHR 0x82], [CHR 0xE2, CHR 0x80, CHR 0x83],
      [CHR 0xE2, CHR 0x80, CHR 0x84], [CHR 0xE2, CHR 0x80, CHR 0x85],
      [CHR 0xE2, CHR 0x80, CHR 0x86], [CHR 0xE2, CHR 0x80, CHR 0x87],
      [CHR 0xE2, CHR 0x80, CHR 0x88], [CHR 0xE2, CHR 0x80, CHR 0x89],
      [CHR 0xE2, CHR 0x80, CHR 0x8A],
      [CHR 0xE2, CHR 0x80, CHR 0xA8], [CHR 0xE2, CHR 0x80, CHR 0xA9],
      [CHR 0xE2, CHR 0x80, CHR 0xAF], [CHR 0xE2, CHR 0x81, CHR 0x9F],
      [CHR 0xE3, CHR 0x80, CHR 0x80]]"

text \<open>The width in bytes of the white-space rune a string starts or ends with, 0 if none.\<close>

definition leading_space :: "string \<Rightarrow> nat" where
  "leading_space s = (case find (\<lambda>r. prefix r s) space_runes of None \<Rightarrow> 0 | Some r \<Rightarrow> length r)"

definition trailing_space :: "string \<Rightarrow> nat" where
  "trailing_space s = (case find (\<lambda>r. suffix r s) space_runes of None \<Rightarrow> 0 | Some r \<Rightarrow> length r)"

lemma leading_space_Nil: "leading_space [] = 0"
  by (simp add: leading_space_def space_runes_def)

lemma trailing_space_Nil: "trailing_space [] = 0"
  by (simp add: trailing_space_def space_runes_def)

function TrimLeft :: "string \<Rightarrow> string" where
  "TrimLeft s = (if leading_space s = 0 then s else TrimLeft (drop (leading_space s) s))"
  by pat_completeness auto
termination
proof (relation "measure length")
  show "wf (measure length)" by simp
next
  fix s :: string
  assume "leading_space s \<noteq> 0"
  then have "s \<noteq> []" using leading_space_Nil by auto
  with \<open>leading_space s \<noteq> 0\<close> show "(drop (leading_space s) s, s) \<in> measure length"
    by (cases s) auto
qed

function TrimRight :: "string \<Rightarrow> string" where
  "TrimRight s =
     (if trailing_space s = 0 then s else TrimRight (take (length s - trailing_space s) s))"
  by pat_completeness auto
termination
proof (relation "measure length")
  show "wf (measure length)" by simp
next
  fix s :: string
  assume "trailing_space s \<noteq> 0"
  then have "s \<noteq> []" using trailing_space_Nil by auto
  with \<open>trailing_space s \<noteq> 0\<close> show "(take (length s - trailing_space s) s, s) \<in> measure length"
    by (cases s) auto
qed

declare TrimLeft.simps [simp del] TrimRight.simps [simp del]

definition TrimSpace :: "string \<Rightarrow> string" where
  "TrimSpace s = TrimRight (TrimLeft s)"

text \<open>
  \<open>New\<close> calls itself after each repair, without bound. What isolate and the operating
  system answer is a script: one \<open>init_answer\<close> for each call of \<open>New\<close>, in order,
  holding the combined output and the error of \<open>isolate --init\<close>, the output and error of
  the cleanup command and the error of \<open>os.Chown\<close> (read only when that call asks for
  them). \<open>New\<close> is \<open>None\<close> when the script ends before a call returns. The third
  argument collects the events.
\<close>

record init_answer =
  ret :: string
  initErr :: "string option"
  cleanupOut :: string
  cleanupErr :: "string option"
  chownErr :: "string option"

datatype new_event =
  Isolate "string list"
| Chown
| BoxReset int
| CleanupProblem string string
| ChownProblem string

definition cleanupLog :: "init_answer \<Rightarrow> new_event list" where
  "cleanupLog a = (case cleanupErr a of None \<Rightarrow> [] | Some err \<Rightarrow> [CleanupProblem err (cleanupOut a)])"

fun New ::
  "init_answer list \<Rightarrow> int \<Rightarrow> new_event list
    \<Rightarrow> ((IsolateBox option \<times> string option) \<times> new_event list) option" where
  "New [] boxid evs = None"
| "New (a # answers) boxid evs =
     (let evs = evs @ [Isolate [''--cg'', ''--box-id='' @ Itoa boxid, ''--init'']] in
        if HasPrefix (ret a) ''Box already exists'' then
          New answers boxid
            (evs @ [BoxReset boxid, Isolate [''--cg'', ''--box-id='' @ Itoa boxid, ''--cleanup'']]
               @ cleanupLog a)
        else if Contains (ret a) ''incompatible control group mode'' then
          New answers boxid
            (evs @ [BoxReset boxid, Isolate [''--box-id='' @ Itoa boxid, ''--cleanup'']] @ cleanupLog a)
        else if HasPrefix (ret a) ''Must be started as root'' then
          (case chownErr a of
             Some err \<Rightarrow> Some ((None, Some err), evs @ [Chown, ChownProblem err])
           | None \<Rightarrow> New answers boxid (evs @ [Chown]))
        else
          (case initErr a of
             Some err \<Rightarrow> Some ((None, Some err), evs)
           | None \<Rightarrow> Some ((Some \<lparr>path = TrimSpace (ret a), boxID = boxid\<rparr>, None), evs)))"

text \<open>
  The specification's reading of the output of \<open>isolate --init\<close>: its last line, the
  text after the last newline that is not the final byte.
\<close>

definition last_line :: "string \<Rightarrow> string" where
  "last_line out =
     (let body = (if out \<noteq> [] \<and> last out = CHR 0x0A then butlast out else out)
      in rev (takeWhile (\<lambda>ch. ch \<noteq> CHR 0x0A) (rev body)))"

section \<open>The flag list, segment by segment\<close>

text \<open>
  The functions below name the segments of the flag list as the specification describes
  them; \<open>buildRunFlags_eq\<close> shows that the code builds exactly these, in this order.
  \<open>dir_rule_flag\<close> is the flag of one directory rule.
\<close>

definition dir_rule_flag :: "Directory \<Rightarrow> string" where
  "dir_rule_flag d =
     (if Removes d then ''--dir='' @ In d @ ''=''
      else ''--dir='' @ In d
           @ (if Out d \<noteq> [] then ''='' @ Out d else if Verbatim d then [] else ''='' @ In d)
           @ (if Opts d \<noteq> [] then '':'' @ Opts d else []))"

definition setEnvFlags :: "(string \<times> string) list \<Rightarrow> string list" where
  "setEnvFlags kvs = map (\<lambda>(key, val). ''--env='' @ key @ ''='' @ val) kvs"

definition envFlags :: "'f RunConfig \<Rightarrow> (string \<times> string) list \<Rightarrow> string list" where
  "envFlags c envOrder =
     (if InheritEnv c then [''--full-env''] else [])
     @ map (\<lambda>env. ''--env='' @ env) (EnvToInherit c)
     @ (case EnvToSet c of None \<Rightarrow> [] | Some m \<Rightarrow> setEnvFlags envOrder)"

definition limitFlags :: "('f::zero \<Rightarrow> string) \<Rightarrow> 'f RunConfig \<Rightarrow> string list" where
  "limitFlags fmt c =
     (if TimeLimit c \<noteq> 0 then [''--time='' @ fmt (TimeLimit c)] else [])
     @ (if WallTimeLimit c \<noteq> 0 then [''--wall-time='' @ fmt (WallTimeLimit c)] else [])
     @ (if MemoryLimit c \<noteq> 0 then [''--cg-mem='' @ Itoa (MemoryLimit c)] else [])"

text \<open>The configuration as a call of \<open>buildRunFlags\<close> leaves it.\<close>

definition withDefaults :: "'f RunConfig \<Rightarrow> 'f RunConfig" where
  "withDefaults c =
     c\<lparr>InputPath := (if InputPath c = [] then ''/dev/null'' else InputPath c),
       OutputPath := (if OutputPath c = [] then ''/dev/null'' else OutputPath c),
       StderrPath := (if \<not> StderrToStdout c \<and> StderrPath c = [] then ''/dev/null''
                      else StderrPath c)\<rparr>"

definition stdioFlags :: "'f RunConfig \<Rightarrow> string list" where
  "stdioFlags c =
     [''--stdin='' @ InputPath (withDefaults c), ''--stdout='' @ OutputPath (withDefaults c),
      (if StderrToStdout c then ''--stderr-to-stdout''
       else ''--stderr='' @ StderrPath (withDefaults c))]"

text \<open>
  \<open>valid_order c ord\<close>: \<open>ord\<close> is an order in which \<open>range\<close> can visit \<open>c.EnvToSet\<close>
  (any list will do for a nil map, which the loop does not visit).
\<close>

definition valid_order :: "'f RunConfig \<Rightarrow> (string \<times> string) list \<Rightarrow> bool" where
  "valid_order c ord = (case EnvToSet c of None \<Rightarrow> True | Some m \<Rightarrow> map_range m ord)"

definition at_most_one_entry :: "'f RunConfig \<Rightarrow> bool" where
  "at_most_one_entry c = (case EnvToSet c of None \<Rightarrow> True | Some m \<Rightarrow> card (dom m) \<le> 1)"

section \<open>Names for the properties of the decoder and the runner\<close>





text \<open>
  A library to evaluate the model on examples: its numbers have no fraction, and it
  joins two path elements by writing them one after the other.
\<close>

definition exampleLib :: "int golib" where
  "exampleLib = \<lparr>FormatFloat = Itoa, ParseFloat = Atoi, Join = (\<lambda>dir name. dir @ name)\<rparr>"

text \<open>
  An answer of \<open>isolate --init\<close> is \<open>healthy\<close> when it has no error and none of the
  three texts that make \<open>New\<close> repair and call itself.
\<close>

definition healthy :: "init_answer \<Rightarrow> bool" where
  "healthy a =
     (\<not> HasPrefix (ret a) ''Box already exists''
      \<and> \<not> Contains (ret a) ''incompatible control group mode''
      \<and> \<not> HasPrefix (ret a) ''Must be started as root''
      \<and> initErr a = None)"

text \<open>
  \<open>attempt_params\<close> are the arguments with which attempt \<open>i\<close> runs isolate when the
  configuration is \<open>c\<close> at its start. \<open>outcome_of\<close> is the report and the error that
  \<open>runCommand\<close> returns for what isolate gave. An outcome is \<open>rejected\<close> when it has an
  error, no report, or a report with status \<open>XX\<close>; it is \<open>exec_failed\<close> when the report
  passes these tests, has exit code 127 and isolate's output contains \<open>execve\<close>; it is
  \<open>not_accepted\<close> in both cases.
\<close>

definition attempt_params ::
  "'f::zero golib \<Rightarrow> world \<Rightarrow> IsolateBox \<Rightarrow> string list \<Rightarrow> 'f RunConfig \<Rightarrow> nat \<Rightarrow> string list" where
  "attempt_params lib w b command c i =
     fst (buildRunFlags (FormatFloat lib) b c (CreateTemp w i) (rangeOrder w i)) @ command"

definition outcome_of :: "'f::zero golib \<Rightarrow> process \<Rightarrow> 'f RunStats option \<times> string option" where
  "outcome_of lib p = (case runCommand lib p [] [] of (m, err, evs) \<Rightarrow> (m, err))"

definition rejected :: "'f RunStats option \<times> string option \<Rightarrow> bool" where
  "rejected r = (case r of (m, err) \<Rightarrow> err \<noteq> None \<or> m = None \<or> Status (the m) = ''XX'')"

definition exec_failed :: "'f RunStats option \<times> string option \<Rightarrow> bool" where
  "exec_failed r =
     (case r of (m, err) \<Rightarrow>
        err = None \<and> m \<noteq> None \<and> Status (the m) \<noteq> ''XX'' \<and> ExitCode (the m) = 127
        \<and> Contains (InternalMessage (the m)) ''execve'')"

definition not_accepted :: "'f RunStats option \<times> string option \<Rightarrow> bool" where
  "not_accepted r = (rejected r \<or> exec_failed r)"

text \<open>
  Examples: an isolate that reports an internal error, and one whose third run reports
  that the program could not be executed; a box and a configuration.
\<close>

definition xxProcess :: process where
  "xxProcess =
     \<lparr>runErr = ExitError, isolateOut = ''Cannot run proxy'',
      metaText = ''status:XX\<newline>message:Cannot run proxy\<newline>''\<rparr>"

definition busyProcess :: process where
  "busyProcess =
     \<lparr>runErr = ExitError, isolateOut = ''execve(/box/prog): Text file busy'',
      metaText = ''exitcode:127\<newline>status:RE\<newline>''\<rparr>"

definition xxWorld :: world where
  "xxWorld =
     \<lparr>Stat = (\<lambda>p. StatOk), CreateTemp = (\<lambda>i. Some ''/tmp/sandbox-meta-1''),
      Run = (\<lambda>i params. xxProcess), rangeOrder = (\<lambda>i. [])\<rparr>"

definition busyWorld :: world where
  "busyWorld =
     \<lparr>Stat = (\<lambda>p. StatOk), CreateTemp = (\<lambda>i. Some ''/tmp/sandbox-meta-1''),
      Run = (\<lambda>i params. if i = 3 then busyProcess else xxProcess), rangeOrder = (\<lambda>i. [])\<rparr>"

text \<open>An operating system on which no temporary file can be created.\<close>

definition noTempWorld :: world where
  "noTempWorld =
     \<lparr>Stat = (\<lambda>p. StatOk), CreateTemp = (\<lambda>i. None),
      Run = (\<lambda>i params. xxProcess), rangeOrder = (\<lambda>i. [])\<rparr>"

definition exampleBox :: IsolateBox where
  "exampleBox = \<lparr>path = ''/var/lib/isolate/50'', boxID = 50\<rparr>"

definition exampleConf :: "int RunConfig" where
  "exampleConf =
     \<lparr>StderrToStdout = True, InputPath = ''/box/prog.in'', OutputPath = ''/box/prog.out'',
      StderrPath = [], MemoryLimit = 1048576, TimeLimit = 2, WallTimeLimit = 3,
      InheritEnv = True, EnvToInherit = [], EnvToSet = None, Directories = []\<rparr>"

text \<open>
  The events that run isolate or sleep, and the events of one call of \<open>runCommand\<close>.
\<close>

fun is_run_or_sleep :: "event \<Rightarrow> bool" where
  "is_run_or_sleep (Spawned params) = True"
| "is_run_or_sleep (Slept ms) = True"
| "is_run_or_sleep (Logged l) = False"
| "is_run_or_sleep (Removed name) = False"

definition run_events :: "process \<Rightarrow> string list \<Rightarrow> string \<Rightarrow> event list" where
  "run_events p params name =
     (case runErr p of RunFailed e \<Rightarrow> [Spawned params] | _ \<Rightarrow> [Spawned params, Removed name])"

section \<open>Properties of buildRunFlags\<close>

lemma dirFlags_map: "dirFlags res dirs = res @ map dir_rule_flag dirs"
  by (induction dirs arbitrary: res) (simp_all add: dir_rule_flag_def Let_def)

lemma inheritFlags_map: "inheritFlags res envs = res @ map (\<lambda>env. ''--env='' @ env) envs"
  by (induction envs arbitrary: res) simp_all

lemma setFlags_map: "setFlags res kvs = res @ setEnvFlags kvs"
  by (induction kvs arbitrary: res) (auto simp: setEnvFlags_def)

lemma if_append_right: "(if P then res @ xs else res) = res @ (if P then xs else [])"
  by simp

lemma case_option_append_right:
  "(case m of None \<Rightarrow> res | Some x \<Rightarrow> res @ f x) = res @ (case m of None \<Rightarrow> [] | Some x \<Rightarrow> f x)"
  by (simp split: option.split)

lemma buildRunFlags_eq:
  "buildRunFlags fmt b c metaFile envOrder =
     ([''--box-id='' @ Itoa (boxID b), ''--cg'', ''--processes'']
        @ map dir_rule_flag (Directories c)
        @ envFlags c envOrder
        @ limitFlags fmt c
        @ stdioFlags c
        @ (case metaFile of None \<Rightarrow> [] | Some name \<Rightarrow> [''--meta='' @ name])
        @ [''--silent'', ''--run'', ''--''],
      withDefaults c)"
  unfolding buildRunFlags_def envFlags_def limitFlags_def stdioFlags_def withDefaults_def
  by (cases "InputPath c = []"; cases "OutputPath c = []"; cases "StderrToStdout c";
      cases "StderrPath c = []";
      simp add: Let_def dirFlags_map inheritFlags_map setFlags_map if_append_right
        case_option_append_right split del: if_split cong: option.case_cong)

lemma filter_map_none: "(\<And>x. \<not> P (f x)) \<Longrightarrow> filter P (map f xs) = []"
  by (induction xs) simp_all

lemma filter_map_all: "(\<And>x. P (f x)) \<Longrightarrow> filter P (map f xs) = map f xs"
  by (induction xs) simp_all

lemma dir_rule_flag_prefix: "prefix ''--dir='' (dir_rule_flag d)"
  by (simp add: dir_rule_flag_def)

lemma filter_dir_envFlags: "filter (prefix ''--dir='') (envFlags c envOrder) = []"
  by (simp add: envFlags_def setEnvFlags_def filter_map_none split: option.split prod.split)

lemma filter_dir_limitFlags: "filter (prefix ''--dir='') (limitFlags fmt c) = []"
  by (simp add: limitFlags_def)

lemma filter_dir_stdioFlags: "filter (prefix ''--dir='') (stdioFlags c) = []"
  by (simp add: stdioFlags_def)

text \<open>
  C5. The flags of \<open>buildRunFlags\<close> that start with \<open>--dir=\<close> are exactly the flags of
  the directory rules, one per rule and in the order of the list. The flag of a rule
  that removes is \<open>--dir=In=\<close>, whatever its outside path and options are; an adding
  rule with no outside path gives \<open>--dir=In=In\<close>, or \<open>--dir=In\<close> when it is verbatim;
  one with an outside path gives \<open>--dir=In=Out\<close>; and options that are not empty are
  appended after a colon.
\<close>

theorem buildRunFlags_directories:
  "filter (prefix ''--dir='') (fst (buildRunFlags fmt b c metaFile envOrder))
     = map dir_rule_flag (Directories c)
   \<and> dir_rule_flag \<lparr>In = i, Out = out, Opts = opts, Removes = True, Verbatim = v\<rparr>
       = ''--dir='' @ i @ ''=''
   \<and> dir_rule_flag \<lparr>In = i, Out = [], Opts = [], Removes = False, Verbatim = False\<rparr>
       = ''--dir='' @ i @ ''='' @ i
   \<and> dir_rule_flag \<lparr>In = i, Out = [], Opts = [], Removes = False, Verbatim = True\<rparr>
       = ''--dir='' @ i
   \<and> dir_rule_flag \<lparr>In = i, Out = x # out, Opts = [], Removes = False, Verbatim = v\<rparr>
       = ''--dir='' @ i @ ''='' @ x # out
   \<and> dir_rule_flag \<lparr>In = i, Out = out, Opts = y # opts, Removes = False, Verbatim = v\<rparr>
       = dir_rule_flag \<lparr>In = i, Out = out, Opts = [], Removes = False, Verbatim = v\<rparr>
         @ '':'' @ y # opts"
proof -
  have "filter (prefix ''--dir='') (fst (buildRunFlags fmt b c metaFile envOrder))
          = map dir_rule_flag (Directories c)"
    by (simp add: buildRunFlags_eq filter_dir_envFlags filter_dir_limitFlags
        filter_dir_stdioFlags filter_map_all dir_rule_flag_prefix split: option.split)
  then show ?thesis
    by (simp add: dir_rule_flag_def)
qed

text \<open>
  The limit flags: none for a limit that is 0; otherwise \<open>--time=\<close> and \<open>--wall-time=\<close>
  carry what \<open>strconv.FormatFloat\<close> renders, and \<open>--cg-mem=\<close> carries the decimal digits
  of the memory limit.
\<close>

lemma buildRunFlags_limits:
  "filter (\<lambda>f. prefix ''--time='' f \<or> prefix ''--wall-time='' f \<or> prefix ''--cg-mem='' f)
     (fst (buildRunFlags fmt b c metaFile envOrder))
   = (if TimeLimit c \<noteq> 0 then [''--time='' @ fmt (TimeLimit c)] else [])
     @ (if WallTimeLimit c \<noteq> 0 then [''--wall-time='' @ fmt (WallTimeLimit c)] else [])
     @ (if MemoryLimit c \<noteq> 0 then [''--cg-mem='' @ Itoa (MemoryLimit c)] else [])"
proof -
  let ?P = "\<lambda>f. prefix ''--time='' f \<or> prefix ''--wall-time='' f \<or> prefix ''--cg-mem='' f"
  have dir: "filter ?P (map dir_rule_flag ds) = []" for ds
    by (rule filter_map_none) (simp add: dir_rule_flag_def)
  have env: "filter ?P (envFlags c envOrder) = []"
    by (simp add: envFlags_def setEnvFlags_def filter_map_none split: option.split prod.split)
  have lim: "filter ?P (limitFlags fmt c) = limitFlags fmt c"
    by (simp add: limitFlags_def)
  have std: "filter ?P (stdioFlags c) = []"
    by (simp add: stdioFlags_def)
  show ?thesis
    unfolding buildRunFlags_eq fst_conv filter_append dir env lim std
    by (simp add: limitFlags_def split: option.split)
qed

lemma dir_rule_flag_not_std:
  "\<not> prefix ''--stdin'' (dir_rule_flag d)" "\<not> prefix ''--stdout'' (dir_rule_flag d)"
  "\<not> prefix ''--stderr'' (dir_rule_flag d)" "dir_rule_flag d \<noteq> ''--full-env''"
  "\<not> prefix ''--env='' (dir_rule_flag d)"
  by (simp_all add: dir_rule_flag_def)

lemma filter_std_envFlags:
  "filter (prefix ''--stdin'') (envFlags c envOrder) = []"
  "filter (prefix ''--stdout'') (envFlags c envOrder) = []"
  "filter (prefix ''--stderr'') (envFlags c envOrder) = []"
  by (simp_all add: envFlags_def setEnvFlags_def filter_map_none split: option.split prod.split)

lemma filter_std_limitFlags:
  "filter (prefix ''--stdin'') (limitFlags fmt c) = []"
  "filter (prefix ''--stdout'') (limitFlags fmt c) = []"
  "filter (prefix ''--stderr'') (limitFlags fmt c) = []"
  by (simp_all add: limitFlags_def)

lemma filter_std_stdioFlags:
  "filter (prefix ''--stdin'') (stdioFlags c) = [''--stdin='' @ InputPath (withDefaults c)]"
  "filter (prefix ''--stdout'') (stdioFlags c) = [''--stdout='' @ OutputPath (withDefaults c)]"
  "filter (prefix ''--stderr'') (stdioFlags c) =
     [if StderrToStdout c then ''--stderr-to-stdout'' else ''--stderr='' @ StderrPath (withDefaults c)]"
  by (simp_all add: stdioFlags_def)

lemma filter_std_flags:
  "filter (prefix ''--stdin'') (fst (buildRunFlags fmt b c metaFile envOrder))
     = [''--stdin='' @ InputPath (withDefaults c)]"
  "filter (prefix ''--stdout'') (fst (buildRunFlags fmt b c metaFile envOrder))
     = [''--stdout='' @ OutputPath (withDefaults c)]"
  "filter (prefix ''--stderr'') (fst (buildRunFlags fmt b c metaFile envOrder))
     = [if StderrToStdout c then ''--stderr-to-stdout'' else ''--stderr='' @ StderrPath (withDefaults c)]"
  by (simp_all add: buildRunFlags_eq filter_std_envFlags filter_std_limitFlags
      filter_std_stdioFlags filter_map_none dir_rule_flag_not_std split: option.split)

text \<open>
  C2, as amended. \<open>buildRunFlags\<close> replaces an empty stdin or stdout path by
  \<open>/dev/null\<close>, and an empty stderr path too when \<open>StderrToStdout\<close> is unset; it writes
  the default into the configuration, and the only flag of that stream is the one with
  \<open>/dev/null\<close>. When \<open>StderrToStdout\<close> is set, the only stderr flag is
  \<open>--stderr-to-stdout\<close> and the stderr path is left as it is. No other field of the
  configuration changes.
\<close>

theorem buildRunFlags_stdio_defaults:
  assumes "buildRunFlags fmt b c metaFile envOrder = (flags, c')"
  shows "(InputPath c = [] \<longrightarrow>
            InputPath c' = ''/dev/null'' \<and> filter (prefix ''--stdin'') flags = [''--stdin=/dev/null''])
       \<and> (OutputPath c = [] \<longrightarrow>
            OutputPath c' = ''/dev/null'' \<and> filter (prefix ''--stdout'') flags = [''--stdout=/dev/null''])
       \<and> (\<not> StderrToStdout c \<and> StderrPath c = [] \<longrightarrow>
            StderrPath c' = ''/dev/null'' \<and> filter (prefix ''--stderr'') flags = [''--stderr=/dev/null''])
       \<and> (StderrToStdout c \<longrightarrow>
            StderrPath c' = StderrPath c \<and> filter (prefix ''--stderr'') flags = [''--stderr-to-stdout''])
       \<and> c' = c\<lparr>InputPath := InputPath c', OutputPath := OutputPath c', StderrPath := StderrPath c'\<rparr>"
proof -
  have flags: "flags = fst (buildRunFlags fmt b c metaFile envOrder)"
    and c': "c' = withDefaults c"
    using assms by (simp_all add: buildRunFlags_eq)
  show ?thesis
    unfolding flags filter_std_flags unfolding c' by (simp add: withDefaults_def)
qed

text \<open>The theorem at a configuration with all three paths empty.\<close>

theorem buildRunFlags_stdio_defaults_witness:
  "buildRunFlags Itoa \<lparr>path = ''/var/local/lib/isolate/50'', boxID = 50\<rparr>
     \<lparr>StderrToStdout = False, InputPath = [], OutputPath = [], StderrPath = [],
      MemoryLimit = 0, TimeLimit = 0 :: int, WallTimeLimit = 0, InheritEnv = False,
      EnvToInherit = [], EnvToSet = None, Directories = []\<rparr> None []
   = ([''--box-id=50'', ''--cg'', ''--processes'', ''--stdin=/dev/null'', ''--stdout=/dev/null'',
       ''--stderr=/dev/null'', ''--silent'', ''--run'', ''--''],
      \<lparr>StderrToStdout = False, InputPath = ''/dev/null'', OutputPath = ''/dev/null'',
       StderrPath = ''/dev/null'', MemoryLimit = 0, TimeLimit = 0 :: int, WallTimeLimit = 0,
       InheritEnv = False, EnvToInherit = [], EnvToSet = None, Directories = []\<rparr>)
   \<and> filter (prefix ''--stdin'')
        [''--box-id=50'', ''--cg'', ''--processes'', ''--stdin=/dev/null'', ''--stdout=/dev/null'',
         ''--stderr=/dev/null'', ''--silent'', ''--run'', ''--''] = [''--stdin=/dev/null'']"
proof -
  have run: "buildRunFlags Itoa \<lparr>path = ''/var/local/lib/isolate/50'', boxID = 50\<rparr>
     \<lparr>StderrToStdout = False, InputPath = [], OutputPath = [], StderrPath = [],
      MemoryLimit = 0, TimeLimit = 0 :: int, WallTimeLimit = 0, InheritEnv = False,
      EnvToInherit = [], EnvToSet = None, Directories = []\<rparr> None []
   = ([''--box-id=50'', ''--cg'', ''--processes'', ''--stdin=/dev/null'', ''--stdout=/dev/null'',
       ''--stderr=/dev/null'', ''--silent'', ''--run'', ''--''],
      \<lparr>StderrToStdout = False, InputPath = ''/dev/null'', OutputPath = ''/dev/null'',
       StderrPath = ''/dev/null'', MemoryLimit = 0, TimeLimit = 0 :: int, WallTimeLimit = 0,
       InheritEnv = False, EnvToInherit = [], EnvToSet = None, Directories = []\<rparr>)"
    by (simp add: buildRunFlags_def Itoa_def nat_digits.simps digit_char_def)
  from buildRunFlags_stdio_defaults [OF run] show ?thesis
    using run by simp
qed

text \<open>
  C2 as stated fails for the stderr path when \<open>StderrToStdout\<close> is set: the path is
  empty before the call and \<open>/dev/null\<close> is not written into it.
\<close>

theorem buildRunFlags_stderr_merge_counterexample:
  "StderrPath (snd (buildRunFlags Itoa \<lparr>path = ''/var/local/lib/isolate/50'', boxID = 50\<rparr>
     \<lparr>StderrToStdout = True, InputPath = [], OutputPath = [], StderrPath = [],
      MemoryLimit = 0, TimeLimit = 0 :: int, WallTimeLimit = 0, InheritEnv = False,
      EnvToInherit = [], EnvToSet = None, Directories = []\<rparr> None [])) \<noteq> ''/dev/null''"
  by (simp add: buildRunFlags_def)


lemma map_range_set:
  assumes "map_range m kvs"
  shows "set kvs = {(k, v). m k = Some v}"
proof -
  from assms have d: "distinct (map fst kvs)" and m: "m = map_of kvs"
    by (simp_all add: map_range_def)
  show ?thesis
    unfolding m using map_of_eq_Some_iff [OF d] by auto
qed

lemma map_range_mset:
  assumes "map_range m o1" and "map_range m o2"
  shows "mset o1 = mset o2"
proof -
  have d1: "distinct o1" and d2: "distinct o2"
    using assms by (auto simp: map_range_def dest: distinct_map [THEN iffD1])
  have "set o1 = set o2"
    using assms by (simp add: map_range_set)
  with d1 d2 show ?thesis
    by (simp add: set_eq_iff_mset_eq_distinct)
qed

lemma map_range_length:
  assumes "map_range m kvs"
  shows "length kvs = card (dom m)"
proof -
  from assms have d: "distinct (map fst kvs)" and m: "m = map_of kvs"
    by (simp_all add: map_range_def)
  have "dom m = set (map fst kvs)"
    unfolding m by (simp add: dom_map_of_conv_image_fst)
  with d show ?thesis
    by (metis distinct_card length_map)
qed

lemma mset_eq_short:
  assumes "mset xs = mset ys" and "length xs \<le> 1"
  shows "xs = ys"
proof -
  from assms(1) have len: "length ys = length xs"
    by (metis size_mset)
  show ?thesis
  proof (cases xs)
    case Nil
    with len show ?thesis by simp
  next
    case (Cons x xs')
    with assms(2) have xs: "xs = [x]" by simp
    with len obtain y where ys: "ys = [y]"
      by (cases ys) auto
    from assms(1) xs ys show ?thesis by simp
  qed
qed

lemma filter_env_flags:
  "filter (\<lambda>f. f = ''--full-env'' \<or> prefix ''--env='' f) (fst (buildRunFlags fmt b c metaFile envOrder))
     = envFlags c envOrder"
proof -
  have env: "filter (\<lambda>f. f = ''--full-env'' \<or> prefix ''--env='' f) (envFlags c envOrder)
               = envFlags c envOrder"
    by (simp add: envFlags_def setEnvFlags_def filter_map_all split: option.split prod.split)
  have lim: "filter (\<lambda>f. f = ''--full-env'' \<or> prefix ''--env='' f) (limitFlags fmt c) = []"
    by (simp add: limitFlags_def)
  have std: "filter (\<lambda>f. f = ''--full-env'' \<or> prefix ''--env='' f) (stdioFlags c) = []"
    by (simp add: stdioFlags_def)
  show ?thesis
    by (simp add: buildRunFlags_eq env lim std filter_map_none dir_rule_flag_not_std
        split: option.split)
qed

text \<open>
  C3, as amended. For every configuration, report path and visiting order of
  \<open>EnvToSet\<close>, the environment flags of \<open>buildRunFlags\<close> are: the full-inherit flag if
  requested, one flag per inherited name in list order, then one flag per entry of
  \<open>EnvToSet\<close> in the order in which \<open>range\<close> visits the map. Two calls on equal inputs
  give flag lists that are equal outside the flags of \<open>EnvToSet\<close>, and those flags are
  the same up to their order; the configurations they leave are equal; and the two
  results are equal when \<open>EnvToSet\<close> is nil or has at most one entry.
\<close>

theorem buildRunFlags_env_order:
  assumes "valid_order c o1" and "valid_order c o2"
  shows "filter (\<lambda>f. f = ''--full-env'' \<or> prefix ''--env='' f)
             (fst (buildRunFlags fmt b c metaFile o1))
           = (if InheritEnv c then [''--full-env''] else [])
             @ map (\<lambda>env. ''--env='' @ env) (EnvToInherit c)
             @ (case EnvToSet c of None \<Rightarrow> [] | Some m \<Rightarrow> setEnvFlags o1)
       \<and> (\<exists>pre post s1 s2.
             fst (buildRunFlags fmt b c metaFile o1) = pre @ s1 @ post
           \<and> fst (buildRunFlags fmt b c metaFile o2) = pre @ s2 @ post
           \<and> s1 = (case EnvToSet c of None \<Rightarrow> [] | Some m \<Rightarrow> setEnvFlags o1)
           \<and> s2 = (case EnvToSet c of None \<Rightarrow> [] | Some m \<Rightarrow> setEnvFlags o2)
           \<and> mset s1 = mset s2)
       \<and> snd (buildRunFlags fmt b c metaFile o1) = snd (buildRunFlags fmt b c metaFile o2)
       \<and> (at_most_one_entry c \<longrightarrow>
            buildRunFlags fmt b c metaFile o1 = buildRunFlags fmt b c metaFile o2)"
proof -
  let ?s = "\<lambda>ord. case EnvToSet c of None \<Rightarrow> [] | Some m \<Rightarrow> setEnvFlags ord"
  let ?pre = "[''--box-id='' @ Itoa (boxID b), ''--cg'', ''--processes'']
                @ map dir_rule_flag (Directories c)
                @ (if InheritEnv c then [''--full-env''] else [])
                @ map (\<lambda>env. ''--env='' @ env) (EnvToInherit c)"
  let ?post = "limitFlags fmt c @ stdioFlags c
                @ (case metaFile of None \<Rightarrow> [] | Some name \<Rightarrow> [''--meta='' @ name])
                @ [''--silent'', ''--run'', ''--'']"
  have shape: "fst (buildRunFlags fmt b c metaFile ord) = ?pre @ ?s ord @ ?post" for ord
    by (simp add: buildRunFlags_eq envFlags_def)
  have perm: "mset (?s o1) = mset (?s o2)"
  proof (cases "EnvToSet c")
    case None
    then show ?thesis by simp
  next
    case (Some m')
    with assms have "mset o1 = mset o2"
      by (auto simp: valid_order_def intro: map_range_mset)
    then have "mset (setEnvFlags o1) = mset (setEnvFlags o2)"
      by (simp add: setEnvFlags_def)
    with Some show ?thesis by simp
  qed
  have same: "buildRunFlags fmt b c metaFile o1 = buildRunFlags fmt b c metaFile o2"
    if "at_most_one_entry c"
  proof (cases "EnvToSet c")
    case None
    then show ?thesis by (simp add: buildRunFlags_eq envFlags_def)
  next
    case (Some m')
    with assms have r: "map_range m' o1" "map_range m' o2"
      by (simp_all add: valid_order_def)
    from that Some have "length o1 \<le> 1"
      using map_range_length [OF r(1)] by (simp add: at_most_one_entry_def)
    with map_range_mset [OF r] have "o1 = o2"
      by (rule mset_eq_short)
    then show ?thesis by simp
  qed
  have "\<exists>pre post s1 s2.
             fst (buildRunFlags fmt b c metaFile o1) = pre @ s1 @ post
           \<and> fst (buildRunFlags fmt b c metaFile o2) = pre @ s2 @ post
           \<and> s1 = ?s o1 \<and> s2 = ?s o2 \<and> mset s1 = mset s2"
    by (intro exI conjI) (rule shape refl perm)+
  moreover have "snd (buildRunFlags fmt b c metaFile o1) = snd (buildRunFlags fmt b c metaFile o2)"
    by (simp add: buildRunFlags_eq)
  ultimately show ?thesis
    using same by (simp add: filter_env_flags envFlags_def)
qed

text \<open>The theorem at a map of two entries, visited in two orders.\<close>

theorem buildRunFlags_env_order_witness:
  "filter (\<lambda>f. f = ''--full-env'' \<or> prefix ''--env='' f)
     (fst (buildRunFlags Itoa \<lparr>path = ''/var/local/lib/isolate/50'', boxID = 50\<rparr>
        \<lparr>StderrToStdout = False, InputPath = [], OutputPath = [], StderrPath = [],
         MemoryLimit = 0, TimeLimit = 0 :: int, WallTimeLimit = 0, InheritEnv = True,
         EnvToInherit = [''HOME''], EnvToSet = Some [''A'' \<mapsto> ''1'', ''B'' \<mapsto> ''2''],
         Directories = []\<rparr> None [(''B'', ''2''), (''A'', ''1'')]))
   = [''--full-env'', ''--env=HOME'', ''--env=B=2'', ''--env=A=1'']"
proof -
  let ?c = "\<lparr>StderrToStdout = False, InputPath = [], OutputPath = [], StderrPath = [],
         MemoryLimit = 0, TimeLimit = 0 :: int, WallTimeLimit = 0, InheritEnv = True,
         EnvToInherit = [''HOME''], EnvToSet = Some [''A'' \<mapsto> ''1'', ''B'' \<mapsto> ''2''],
         Directories = []\<rparr>"
  have m: "map_of [(''A'', ''1''), (''B'', ''2'')] = [''A'' \<mapsto> ''1'', ''B'' \<mapsto> ''2'']"
    by (rule ext) simp
  have v1: "valid_order ?c [(''B'', ''2''), (''A'', ''1'')]"
    by (simp add: valid_order_def map_range_def)
  have v2: "valid_order ?c [(''A'', ''1''), (''B'', ''2'')]"
    unfolding valid_order_def map_range_def using m by simp
  from buildRunFlags_env_order [OF v1 v2] show ?thesis
    by (simp add: setEnvFlags_def)
qed

text \<open>
  C3 as stated fails: on one configuration whose \<open>EnvToSet\<close> has two entries, two
  orders in which \<open>range\<close> may visit the map give two different flag lists.
\<close>

theorem buildRunFlags_order_counterexample:
  "map_range [''A'' \<mapsto> ''1'', ''B'' \<mapsto> ''2''] [(''A'', ''1''), (''B'', ''2'')]
   \<and> map_range [''A'' \<mapsto> ''1'', ''B'' \<mapsto> ''2''] [(''B'', ''2''), (''A'', ''1'')]
   \<and> fst (buildRunFlags Itoa \<lparr>path = ''/var/local/lib/isolate/50'', boxID = 50\<rparr>
        \<lparr>StderrToStdout = False, InputPath = [], OutputPath = [], StderrPath = [],
         MemoryLimit = 0, TimeLimit = 0 :: int, WallTimeLimit = 0, InheritEnv = False,
         EnvToInherit = [], EnvToSet = Some [''A'' \<mapsto> ''1'', ''B'' \<mapsto> ''2''],
         Directories = []\<rparr> None [(''A'', ''1''), (''B'', ''2'')])
     \<noteq> fst (buildRunFlags Itoa \<lparr>path = ''/var/local/lib/isolate/50'', boxID = 50\<rparr>
        \<lparr>StderrToStdout = False, InputPath = [], OutputPath = [], StderrPath = [],
         MemoryLimit = 0, TimeLimit = 0 :: int, WallTimeLimit = 0, InheritEnv = False,
         EnvToInherit = [], EnvToSet = Some [''A'' \<mapsto> ''1'', ''B'' \<mapsto> ''2''],
         Directories = []\<rparr> None [(''B'', ''2''), (''A'', ''1'')])"
proof -
  have m: "map_of [(''A'', ''1''), (''B'', ''2'')] = [''A'' \<mapsto> ''1'', ''B'' \<mapsto> ''2'']"
    by (rule ext) simp
  have r1: "map_range [''A'' \<mapsto> ''1'', ''B'' \<mapsto> ''2''] [(''A'', ''1''), (''B'', ''2'')]"
    unfolding map_range_def m [symmetric] by simp
  have r2: "map_range [''A'' \<mapsto> ''1'', ''B'' \<mapsto> ''2''] [(''B'', ''2''), (''A'', ''1'')]"
    unfolding map_range_def by simp
  have "setEnvFlags [(''A'', ''1''), (''B'', ''2'')] \<noteq> setEnvFlags [(''B'', ''2''), (''A'', ''1'')]"
    by (simp add: setEnvFlags_def)
  then show ?thesis
    using r1 r2 by (simp add: buildRunFlags_eq envFlags_def)
qed

section \<open>Properties of the decoder\<close>

lemma scan_example:
  "ScanLines ''status:OK\<newline>exitcode:0\<newline>time:0.042\<newline>cg-mem:2048\<newline>''
     = [''status:OK'', ''exitcode:0'', ''time:0.042'', ''cg-mem:2048'']"
  by (simp add: ScanLines_def MaxScanTokenSize_def dropCR_def)

lemma atoi_examples: "Atoi ''2048'' = (2048, None)" "Atoi ''0'' = (0, None)" "Atoi ''-12'' = (-12, None)"
  "Atoi ''12a'' = (0, Some ErrSyntax)" "Atoi '''' = (0, Some ErrSyntax)" "Atoi ''+'' = (0, Some ErrSyntax)"
  "Atoi ''99999999999999999999'' = (9223372036854775807, Some ErrRange)"
  "Atoi ''-9223372036854775809'' = (-9223372036854775808, Some ErrRange)"
  "Atoi ''99999999999999999999kB'' = (9223372036854775807, Some ErrRange)"
  by (simp_all add: Atoi_def ParseUint_def split_sign_def is_digit_def)

text \<open>
  C8. The report with the lines \<open>status:OK\<close>, \<open>exitcode:0\<close>, \<open>time:0.042\<close> and
  \<open>cg-mem:2048\<close> is decoded to status \<open>OK\<close>, exit code 0, memory 2048, killed false,
  and as CPU time the number that \<open>strconv.ParseFloat\<close> returns for \<open>0.042\<close>.
\<close>

theorem parseMetaFile_example:
  "ScanLines ''status:OK\<newline>exitcode:0\<newline>time:0.042\<newline>cg-mem:2048\<newline>''
     = [''status:OK'', ''exitcode:0'', ''time:0.042'', ''cg-mem:2048'']
   \<and> parseMetaFile pf
       (Some ''status:OK\<newline>exitcode:0\<newline>time:0.042\<newline>cg-mem:2048\<newline>'') out
     = Some \<lparr>Memory = 2048, ExitCode = 0, ExitSignal = 0, Killed = False, Message = [],
              Status = ''OK'', Time = fst (pf ''0.042''), InternalMessage = out\<rparr>"
  by (simp add: parseMetaFile_def scan_example parseLine_def newRunStats_def atoi_examples)














section \<open>Properties of the runner\<close>

text \<open>
  C10. \<open>RunCommand\<close> and \<open>MakeGoodCommand\<close> panic exactly when the command list is
  empty: for a list that is not empty the access to its first element is in bounds and
  both return; for the empty list both panic, and neither returns an error.
\<close>

theorem first_element_access:
  "(fst (RunCommand lib w b command c) = Panic \<longleftrightarrow> command = [])
   \<and> (MakeGoodCommand LookPath EvalSymlinks command = Panic \<longleftrightarrow> command = [])"
  by (auto simp: RunCommand_def MakeGoodCommand_def Let_def
      split: list.splits prod.splits sum.splits)

section \<open>Properties of New\<close>

lemma TrimLeft_stop: "leading_space s = 0 \<Longrightarrow> TrimLeft s = s"
  by (simp add: TrimLeft.simps)

lemma TrimLeft_step: "leading_space s = Suc n \<Longrightarrow> TrimLeft s = TrimLeft (drop (Suc n) s)"
  by (subst TrimLeft.simps) simp

lemma TrimRight_stop: "trailing_space s = 0 \<Longrightarrow> TrimRight s = s"
  by (simp add: TrimRight.simps)

lemma TrimRight_step:
  "trailing_space s = Suc n \<Longrightarrow> TrimRight s = TrimRight (take (length s - Suc n) s)"
  by (subst TrimRight.simps) simp

lemma New_healthy:
  assumes "healthy a"
  shows "New (a # answers) boxid evs =
           Some ((Some \<lparr>path = TrimSpace (ret a), boxID = boxid\<rparr>, None),
                 evs @ [Isolate [''--cg'', ''--box-id='' @ Itoa boxid, ''--init'']])"
  using assms by (simp add: healthy_def Let_def)

lemma New_box:
  assumes "New answers boxid evs = Some ((Some box, err), evs')"
  shows "err = None \<and> boxID box = boxid \<and> (\<exists>a\<in>set answers. healthy a \<and> path box = TrimSpace (ret a))"
  using assms
proof (induction answers arbitrary: evs)
  case Nil
  then show ?case by simp
next
  case (Cons a answers)
  show ?case
  proof (cases "healthy a")
    case True
    from Cons.prems
    have "box = \<lparr>path = TrimSpace (ret a), boxID = boxid\<rparr>" and "err = None"
      unfolding New_healthy [OF True] by simp_all
    with True show ?thesis by simp
  next
    case False
    have "\<exists>evs2. New answers boxid evs2 = Some ((Some box, err), evs')"
      using Cons.prems False
      by (auto simp: healthy_def Let_def split: if_splits option.splits)
    then obtain evs2 where "New answers boxid evs2 = Some ((Some box, err), evs')" ..
    from Cons.IH [OF this] show ?thesis by auto
  qed
qed

text \<open>
  C4, as amended. When the answer of \<open>isolate --init\<close> is healthy, \<open>New\<close> returns a
  box whose root path is the whole combined output of the command with the white space
  at both ends trimmed, bound to the identity the caller gave, and no error. Every box
  that \<open>New\<close> returns, also after repairs, has the caller's identity and the trimmed
  output of a healthy answer as its root path.
\<close>

theorem New_root_path:
  "(healthy a \<longrightarrow>
      New (a # answers) boxid evs =
        Some ((Some \<lparr>path = TrimSpace (ret a), boxID = boxid\<rparr>, None),
              evs @ [Isolate [''--cg'', ''--box-id='' @ Itoa boxid, ''--init'']]))
   \<and> (New script boxid evs = Some ((Some box, err), evs') \<longrightarrow>
        err = None \<and> boxID box = boxid
        \<and> (\<exists>a\<in>set script. healthy a \<and> path box = TrimSpace (ret a)))"
  using New_healthy New_box by blast

lemma trim_path: "TrimSpace ''/var/lib/isolate/50\<newline>'' = ''/var/lib/isolate/50''"
proof -
  have l: "leading_space ''/var/lib/isolate/50\<newline>'' = 0"
    by (simp add: leading_space_def space_runes_def)
  have r1: "trailing_space ''/var/lib/isolate/50\<newline>'' = Suc 0"
    by (simp add: trailing_space_def space_runes_def suffix_def)
  have r2: "trailing_space ''/var/lib/isolate/50'' = 0"
    by (simp add: trailing_space_def space_runes_def suffix_def)
  show ?thesis
    unfolding TrimSpace_def TrimLeft_stop [OF l]
    by (simp add: TrimRight_step [OF r1] TrimRight_stop [OF r2])
qed

lemma trim_warning:
  "TrimSpace ''Warning: swap\<newline>/var/lib/isolate/50\<newline>'' = ''Warning: swap\<newline>/var/lib/isolate/50''"
proof -
  have l: "leading_space ''Warning: swap\<newline>/var/lib/isolate/50\<newline>'' = 0"
    by (simp add: leading_space_def space_runes_def)
  have r1: "trailing_space ''Warning: swap\<newline>/var/lib/isolate/50\<newline>'' = Suc 0"
    by (simp add: trailing_space_def space_runes_def suffix_def)
  have r2: "trailing_space ''Warning: swap\<newline>/var/lib/isolate/50'' = 0"
    by (simp add: trailing_space_def space_runes_def suffix_def)
  show ?thesis
    unfolding TrimSpace_def TrimLeft_stop [OF l]
    by (simp add: TrimRight_step [OF r1] TrimRight_stop [OF r2])
qed

text \<open>The theorem at a box that exists already, is cleaned up and then initialised.\<close>

theorem New_root_path_witness:
  "New [\<lparr>ret = ''Box already exists\<newline>'', initErr = Some ''exit status 2'', cleanupOut = [],
          cleanupErr = None, chownErr = None\<rparr>,
        \<lparr>ret = ''/var/lib/isolate/50\<newline>'', initErr = None, cleanupOut = [],
          cleanupErr = None, chownErr = None\<rparr>] 50 []
   = Some ((Some \<lparr>path = ''/var/lib/isolate/50'', boxID = 50\<rparr>, None),
           [Isolate [''--cg'', ''--box-id=50'', ''--init''], BoxReset 50,
            Isolate [''--cg'', ''--box-id=50'', ''--cleanup''],
            Isolate [''--cg'', ''--box-id=50'', ''--init'']])"
proof -
  have h: "healthy \<lparr>ret = ''/var/lib/isolate/50\<newline>'', initErr = None, cleanupOut = [],
          cleanupErr = None, chownErr = None\<rparr>"
    by (simp add: healthy_def HasPrefix_def)
  have i: "Itoa 50 = ''50''"
    by (simp add: Itoa_def nat_digits.simps digit_char_def)
  from New_root_path [of "\<lparr>ret = ''/var/lib/isolate/50\<newline>'', initErr = None, cleanupOut = [],
          cleanupErr = None, chownErr = None\<rparr>" "[]" 50
          "[Isolate [''--cg'', ''--box-id=50'', ''--init''], BoxReset 50,
            Isolate [''--cg'', ''--box-id=50'', ''--cleanup'']]"] h
  show ?thesis
    by (simp add: HasPrefix_def Let_def i cleanupLog_def trim_path)
qed

text \<open>
  C4 as stated fails when the output has more than one line: here isolate prints a
  warning before the path, the answer is healthy, and the root path of the box is both
  lines, not the last one.
\<close>

theorem New_last_line_counterexample:
  "healthy \<lparr>ret = ''Warning: swap\<newline>/var/lib/isolate/50\<newline>'', initErr = None, cleanupOut = [],
            cleanupErr = None, chownErr = None\<rparr>
   \<and> New [\<lparr>ret = ''Warning: swap\<newline>/var/lib/isolate/50\<newline>'', initErr = None, cleanupOut = [],
           cleanupErr = None, chownErr = None\<rparr>] 50 []
     = Some ((Some \<lparr>path = ''Warning: swap\<newline>/var/lib/isolate/50'', boxID = 50\<rparr>, None),
             [Isolate [''--cg'', ''--box-id=50'', ''--init'']])
   \<and> last_line ''Warning: swap\<newline>/var/lib/isolate/50\<newline>'' = ''/var/lib/isolate/50''
   \<and> ''Warning: swap\<newline>/var/lib/isolate/50'' \<noteq> last_line ''Warning: swap\<newline>/var/lib/isolate/50\<newline>''"
proof -
  have h: "healthy \<lparr>ret = ''Warning: swap\<newline>/var/lib/isolate/50\<newline>'', initErr = None, cleanupOut = [],
            cleanupErr = None, chownErr = None\<rparr>"
    by (simp add: healthy_def HasPrefix_def)
  have i: "Itoa 50 = ''50''"
    by (simp add: Itoa_def nat_digits.simps digit_char_def)
  have ll: "last_line ''Warning: swap\<newline>/var/lib/isolate/50\<newline>'' = ''/var/lib/isolate/50''"
    by (simp add: last_line_def)
  have n: "New [\<lparr>ret = ''Warning: swap\<newline>/var/lib/isolate/50\<newline>'', initErr = None, cleanupOut = [],
           cleanupErr = None, chownErr = None\<rparr>] 50 []
     = Some ((Some \<lparr>path = ''Warning: swap\<newline>/var/lib/isolate/50'', boxID = 50\<rparr>, None),
             [Isolate [''--cg'', ''--box-id=50'', ''--init'']])"
    unfolding New_healthy [OF h] by (simp add: i trim_warning)
  have ne: "''Warning: swap\<newline>/var/lib/isolate/50'' \<noteq> last_line ''Warning: swap\<newline>/var/lib/isolate/50\<newline>''"
    unfolding ll by simp
  show ?thesis
    by (intro conjI) (rule h, rule n, rule ll, rule ne)
qed

section \<open>Retries of RunCommand\<close>

lemma runCommand_outcome:
  "runCommand lib p params name = (fst (outcome_of lib p), snd (outcome_of lib p), run_events p params name)"
  by (simp add: runCommand_def outcome_of_def run_events_def split: RunError.split)

lemma snd_buildRunFlags: "snd (buildRunFlags fmt b c metaFile ord) = withDefaults c"
  by (simp add: buildRunFlags_eq)

lemma withDefaults_idem: "withDefaults (withDefaults c) = withDefaults c"
  by (simp add: withDefaults_def)

lemma loop_unfold:
  "i \<le> runErrRetries \<Longrightarrow>
   RunCommand_loop lib w b command i st
     = (case attempt lib w b command i st of
          Continue st' \<Rightarrow> RunCommand_loop lib w b command (i + 1) st'
        | Return r st' \<Rightarrow> (r, st'))"
  by (subst RunCommand_loop.simps) simp

lemma loop_continue:
  "i \<le> runErrRetries \<Longrightarrow> attempt lib w b command i st = Continue st' \<Longrightarrow>
   RunCommand_loop lib w b command i st = RunCommand_loop lib w b command (i + 1) st'"
  by (simp add: loop_unfold)

lemma loop_stop:
  "runErrRetries < i \<Longrightarrow> RunCommand_loop lib w b command i st = ((meta st, None), st)"
  by (subst RunCommand_loop.simps) simp

lemma attempt_unfold:
  assumes "CreateTemp w i = Some name"
  shows "attempt lib w b command i st =
     (let params = attempt_params lib w b command (conf st) i;
          r = outcome_of lib (Run w i params);
          st1 = st\<lparr>conf := withDefaults (conf st), meta := fst r, deferred := name # deferred st,
                   events := events st @ run_events (Run w i params) params name\<rparr>
      in if exec_failed r then Continue (st1\<lparr>events := events st1 @ [Slept runErrTimeout]\<rparr>)
         else if rejected r then
           Continue (st1\<lparr>events := events st1
              @ (if i > 1 then [Logged (RunErrorRetrying (boxID b) i runErrRetries)] else [])
              @ [Slept runErrTimeout]\<rparr>)
         else Return r st1)"
  using assms
  by (simp add: attempt_def Let_def case_prod_beta snd_buildRunFlags runCommand_outcome
      attempt_params_def exec_failed_def rejected_def prod_eq_iff)


lemma filter_run_events:
  "filter is_run_or_sleep (run_events p params name) = [Spawned params]"
  by (simp add: run_events_def split: RunError.split)

lemma attempt_not_accepted:
  assumes "CreateTemp w i = Some name"
    and "not_accepted (outcome_of lib (Run w i (attempt_params lib w b command (conf st) i)))"
  shows "\<exists>st'. attempt lib w b command i st = Continue st'
           \<and> conf st' = withDefaults (conf st)
           \<and> meta st' = fst (outcome_of lib (Run w i (attempt_params lib w b command (conf st) i)))
           \<and> deferred st' = name # deferred st
           \<and> filter is_run_or_sleep (events st')
               = filter is_run_or_sleep (events st)
                 @ [Spawned (attempt_params lib w b command (conf st) i), Slept runErrTimeout]"
proof (cases "exec_failed (outcome_of lib (Run w i (attempt_params lib w b command (conf st) i)))")
  case True
  then show ?thesis
    by (simp add: attempt_unfold [OF assms(1)] Let_def filter_run_events)
next
  case False
  with assms(2) have "rejected (outcome_of lib (Run w i (attempt_params lib w b command (conf st) i)))"
    by (simp add: not_accepted_def)
  with False show ?thesis
    by (simp add: attempt_unfold [OF assms(1)] Let_def filter_run_events)
qed

lemma loop_exhausted:
  assumes t1: "CreateTemp w 1 = Some n1" and t2: "CreateTemp w 2 = Some n2"
    and t3: "CreateTemp w 3 = Some n3"
    and r1: "not_accepted (outcome_of lib (Run w 1 (attempt_params lib w b command (conf st) 1)))"
    and r2: "not_accepted
               (outcome_of lib (Run w 2 (attempt_params lib w b command (withDefaults (conf st)) 2)))"
    and r3: "not_accepted
               (outcome_of lib (Run w 3 (attempt_params lib w b command (withDefaults (conf st)) 3)))"
  shows "\<exists>st'. RunCommand_loop lib w b command 1 st
                 = ((fst (outcome_of lib
                            (Run w 3 (attempt_params lib w b command (withDefaults (conf st)) 3))),
                     None), st')
           \<and> conf st' = withDefaults (conf st)
           \<and> deferred st' = n3 # n2 # n1 # deferred st
           \<and> filter is_run_or_sleep (events st')
               = filter is_run_or_sleep (events st)
                 @ [Spawned (attempt_params lib w b command (conf st) 1), Slept runErrTimeout,
                    Spawned (attempt_params lib w b command (withDefaults (conf st)) 2),
                    Slept runErrTimeout,
                    Spawned (attempt_params lib w b command (withDefaults (conf st)) 3),
                    Slept runErrTimeout]"
proof -
  from attempt_not_accepted [OF t1 r1] obtain st1 where
    a1: "attempt lib w b command 1 st = Continue st1"
    and c1: "conf st1 = withDefaults (conf st)"
    and d1: "deferred st1 = n1 # deferred st"
    and e1: "filter is_run_or_sleep (events st1)
               = filter is_run_or_sleep (events st)
                 @ [Spawned (attempt_params lib w b command (conf st) 1), Slept runErrTimeout]"
    by blast
  from r2 have "not_accepted (outcome_of lib (Run w 2 (attempt_params lib w b command (conf st1) 2)))"
    by (simp add: c1)
  from attempt_not_accepted [OF t2 this] obtain st2 where
    a2: "attempt lib w b command 2 st1 = Continue st2"
    and c2: "conf st2 = withDefaults (conf st)"
    and d2: "deferred st2 = n2 # n1 # deferred st"
    and e2: "filter is_run_or_sleep (events st2)
               = filter is_run_or_sleep (events st1)
                 @ [Spawned (attempt_params lib w b command (withDefaults (conf st)) 2),
                    Slept runErrTimeout]"
    by (auto simp: c1 d1 withDefaults_idem)
  from r3 have "not_accepted (outcome_of lib (Run w 3 (attempt_params lib w b command (conf st2) 3)))"
    by (simp add: c2)
  from attempt_not_accepted [OF t3 this] obtain st3 where
    a3: "attempt lib w b command 3 st2 = Continue st3"
    and c3: "conf st3 = withDefaults (conf st)"
    and m3: "meta st3 = fst (outcome_of lib
                               (Run w 3 (attempt_params lib w b command (withDefaults (conf st)) 3)))"
    and d3: "deferred st3 = n3 # n2 # n1 # deferred st"
    and e3: "filter is_run_or_sleep (events st3)
               = filter is_run_or_sleep (events st2)
                 @ [Spawned (attempt_params lib w b command (withDefaults (conf st)) 3),
                    Slept runErrTimeout]"
    by (auto simp: c2 d2 withDefaults_idem)
  have "RunCommand_loop lib w b command 1 st = RunCommand_loop lib w b command 2 st1"
    using a1 by (subst RunCommand_loop.simps) (simp add: runErrRetries_def eval_nat_numeral)
  also have "\<dots> = RunCommand_loop lib w b command 3 st2"
    using a2 by (subst RunCommand_loop.simps) (simp add: runErrRetries_def eval_nat_numeral)
  also have "\<dots> = RunCommand_loop lib w b command 4 st3"
    using a3 by (subst RunCommand_loop.simps) (simp add: runErrRetries_def eval_nat_numeral)
  also have "\<dots> = ((meta st3, None), st3)"
    by (subst RunCommand_loop.simps) (simp add: runErrRetries_def eval_nat_numeral)
  finally have "RunCommand_loop lib w b command 1 st = ((meta st3, None), st3)" .
  with c3 m3 d3 e1 e2 e3 show ?thesis
    by simp
qed


lemma RunCommand_all_not_accepted:
  assumes "command \<noteq> []"
    and t1: "CreateTemp w 1 = Some n1" and t2: "CreateTemp w 2 = Some n2"
    and t3: "CreateTemp w 3 = Some n3"
    and r1: "not_accepted (outcome_of lib (Run w 1 (attempt_params lib w b command c 1)))"
    and r2: "not_accepted (outcome_of lib (Run w 2 (attempt_params lib w b command (withDefaults c) 2)))"
    and r3: "not_accepted (outcome_of lib (Run w 3 (attempt_params lib w b command (withDefaults c) 3)))"
  shows "\<exists>evs. RunCommand lib w b command c
                 = (Returns (fst (outcome_of lib
                                    (Run w 3 (attempt_params lib w b command (withDefaults c) 3))),
                             None),
                    evs, withDefaults c)
           \<and> filter is_run_or_sleep evs
               = [Spawned (attempt_params lib w b command c 1), Slept runErrTimeout,
                  Spawned (attempt_params lib w b command (withDefaults c) 2), Slept runErrTimeout,
                  Spawned (attempt_params lib w b command (withDefaults c) 3), Slept runErrTimeout]"
proof -
  from assms(1) obtain command0 rest where cmd: "command = command0 # rest"
    by (cases command) auto
  define evs0 where "evs0 =
     (if HasPrefix command0 ''/box'' then
        (case Stat w (getFilePath lib b command0) of
           StatOk \<Rightarrow> []
         | ErrNotExist \<Rightarrow> [Logged (ExecutableMissing (boxID b))]
         | StatFailed e \<Rightarrow> [Logged (StatProblem e)])
      else [])"
  define st0 where "st0 = \<lparr>conf = c, meta = None, deferred = [], events = evs0\<rparr>"
  have f0: "filter is_run_or_sleep (events st0) = []"
    by (simp add: st0_def evs0_def split: StatError.split)
  have c0: "conf st0 = c" and d0: "deferred st0 = []"
    by (simp_all add: st0_def)
  from loop_exhausted [of w n1 n2 n3 lib b command st0] t1 t2 t3 r1 r2 r3
  obtain st' where
    l: "RunCommand_loop lib w b command 1 st0
          = ((fst (outcome_of lib (Run w 3 (attempt_params lib w b command (withDefaults c) 3))),
              None), st')"
    and c': "conf st' = withDefaults c"
    and e': "filter is_run_or_sleep (events st')
               = [Spawned (attempt_params lib w b command c 1), Slept runErrTimeout,
                  Spawned (attempt_params lib w b command (withDefaults c) 2), Slept runErrTimeout,
                  Spawned (attempt_params lib w b command (withDefaults c) 3), Slept runErrTimeout]"
    unfolding c0 f0 by auto
  have rm: "filter is_run_or_sleep (map Removed xs) = []" for xs
    by (induction xs) simp_all
  have "RunCommand lib w b command c
          = (Returns (fst (outcome_of lib
                             (Run w 3 (attempt_params lib w b command (withDefaults c) 3))), None),
             events st' @ map Removed (deferred st'), withDefaults c)"
    unfolding RunCommand_def cmd list.case Let_def evs0_def [symmetric] st0_def [symmetric]
    unfolding cmd [symmetric] l by (simp add: c')
  moreover have "filter is_run_or_sleep (events st' @ map Removed (deferred st'))
               = [Spawned (attempt_params lib w b command c 1), Slept runErrTimeout,
                  Spawned (attempt_params lib w b command (withDefaults c) 2), Slept runErrTimeout,
                  Spawned (attempt_params lib w b command (withDefaults c) 3), Slept runErrTimeout]"
    by (simp add: e' rm)
  ultimately show ?thesis by blast
qed


text \<open>
  C1, as amended. When the temporary file of each of the three attempts is created and
  none of the three attempts yields an accepted report (an error, no report, a report
  with status \<open>XX\<close>, or the failed exec of C7), \<open>RunCommand\<close> returns the report of
  the third attempt (none when that attempt had an error) and no error; it has run
  isolate exactly three times and slept \<open>runErrTimeout\<close> after each run.
\<close>

theorem RunCommand_exhausted:
  assumes "command \<noteq> []"
    and "\<forall>i\<in>{1, 2, 3}. CreateTemp w i \<noteq> None"
    and "not_accepted (outcome_of lib (Run w 1 (attempt_params lib w b command c 1)))"
    and "not_accepted (outcome_of lib (Run w 2 (attempt_params lib w b command (withDefaults c) 2)))"
    and "not_accepted (outcome_of lib (Run w 3 (attempt_params lib w b command (withDefaults c) 3)))"
  shows "\<exists>evs. RunCommand lib w b command c
                 = (Returns (fst (outcome_of lib
                                    (Run w 3 (attempt_params lib w b command (withDefaults c) 3))),
                             None),
                    evs, withDefaults c)
           \<and> filter is_run_or_sleep evs
               = [Spawned (attempt_params lib w b command c 1), Slept runErrTimeout,
                  Spawned (attempt_params lib w b command (withDefaults c) 2), Slept runErrTimeout,
                  Spawned (attempt_params lib w b command (withDefaults c) 3), Slept runErrTimeout]"
proof -
  from assms(2) obtain n1 n2 n3 where
    t: "CreateTemp w 1 = Some n1" "CreateTemp w 2 = Some n2" "CreateTemp w 3 = Some n3"
    by auto
  show ?thesis
    by (rule RunCommand_all_not_accepted [OF assms(1) t assms(3,4,5)])
qed

lemma outcome_xx:
  "outcome_of exampleLib xxProcess
     = (Some \<lparr>Memory = 0, ExitCode = 0, ExitSignal = 0, Killed = False,
               Message = ''Cannot run proxy'', Status = ''XX'', Time = 0,
               InternalMessage = ''Cannot run proxy''\<rparr>, None)"
  by (simp add: outcome_of_def runCommand_def xxProcess_def parseMetaFile_def ScanLines_def
      MaxScanTokenSize_def dropCR_def parseLine_def newRunStats_def)

lemma outcome_busy:
  "outcome_of exampleLib busyProcess
     = (Some \<lparr>Memory = 0, ExitCode = 127, ExitSignal = 0, Killed = False,
               Message = [], Status = ''RE'', Time = 0,
               InternalMessage = ''execve(/box/prog): Text file busy''\<rparr>, None)"
  by (simp add: outcome_of_def runCommand_def busyProcess_def parseMetaFile_def ScanLines_def
      MaxScanTokenSize_def dropCR_def parseLine_def newRunStats_def Atoi_def ParseUint_def
      split_sign_def
      is_digit_def)

lemma exampleConf_defaults: "withDefaults exampleConf = exampleConf"
  by (simp add: withDefaults_def exampleConf_def)

lemma Itoa_examples: "Itoa 50 = ''50''" "Itoa 2 = ''2''" "Itoa 3 = ''3''" "Itoa 1048576 = ''1048576''"
  by (simp_all add: Itoa_def nat_digits.simps digit_char_def)

lemma example_params:
  "CreateTemp w i = Some ''/tmp/sandbox-meta-1'' \<Longrightarrow> rangeOrder w i = [] \<Longrightarrow>
   attempt_params exampleLib w exampleBox [''/box/prog''] exampleConf i
     = [''--box-id=50'', ''--cg'', ''--processes'', ''--full-env'', ''--time=2'', ''--wall-time=3'',
        ''--cg-mem=1048576'', ''--stdin=/box/prog.in'', ''--stdout=/box/prog.out'',
        ''--stderr-to-stdout'', ''--meta=/tmp/sandbox-meta-1'', ''--silent'', ''--run'', ''--'',
        ''/box/prog'']"
  by (simp add: attempt_params_def buildRunFlags_eq exampleLib_def exampleBox_def exampleConf_def
      envFlags_def limitFlags_def stdioFlags_def withDefaults_def Itoa_examples)


text \<open>The theorem when every attempt reports status \<open>XX\<close>.\<close>

theorem RunCommand_exhausted_witness:
  "\<exists>evs. RunCommand exampleLib xxWorld exampleBox [''/box/prog''] exampleConf
            = (Returns (Some \<lparr>Memory = 0, ExitCode = 0, ExitSignal = 0, Killed = False,
                               Message = ''Cannot run proxy'', Status = ''XX'', Time = 0,
                               InternalMessage = ''Cannot run proxy''\<rparr>, None),
               evs, exampleConf)
      \<and> map (\<lambda>e. case e of Slept ms \<Rightarrow> Some ms | _ \<Rightarrow> None) (filter is_run_or_sleep evs)
          = [None, Some 200, None, Some 200, None, Some 200]"
proof -
  have t: "\<forall>i\<in>{1, 2, 3}. CreateTemp xxWorld i \<noteq> None"
    by (simp add: xxWorld_def)
  have r: "not_accepted (outcome_of exampleLib (Run xxWorld i params))" for i params
    by (simp add: xxWorld_def outcome_xx not_accepted_def rejected_def)
  have ne: "[''/box/prog''] \<noteq> []"
    by simp
  from RunCommand_exhausted [OF ne t r r r, of exampleBox exampleConf,
      unfolded exampleConf_defaults]
  obtain evs where
    e: "RunCommand exampleLib xxWorld exampleBox [''/box/prog''] exampleConf
           = (Returns (fst (outcome_of exampleLib (Run xxWorld 3
                 (attempt_params exampleLib xxWorld exampleBox [''/box/prog''] exampleConf 3))),
               None), evs, exampleConf)
      \<and> filter is_run_or_sleep evs
           = [Spawned (attempt_params exampleLib xxWorld exampleBox [''/box/prog''] exampleConf 1),
              Slept runErrTimeout,
              Spawned (attempt_params exampleLib xxWorld exampleBox [''/box/prog''] exampleConf 2),
              Slept runErrTimeout,
              Spawned (attempt_params exampleLib xxWorld exampleBox [''/box/prog''] exampleConf 3),
              Slept runErrTimeout]"
    ..
  from e have e1: "RunCommand exampleLib xxWorld exampleBox [''/box/prog''] exampleConf
           = (Returns (fst (outcome_of exampleLib (Run xxWorld 3
                 (attempt_params exampleLib xxWorld exampleBox [''/box/prog''] exampleConf 3))),
               None), evs, exampleConf)"
    by (rule conjunct1)
  from e have e2: "filter is_run_or_sleep evs
           = [Spawned (attempt_params exampleLib xxWorld exampleBox [''/box/prog''] exampleConf 1),
              Slept runErrTimeout,
              Spawned (attempt_params exampleLib xxWorld exampleBox [''/box/prog''] exampleConf 2),
              Slept runErrTimeout,
              Spawned (attempt_params exampleLib xxWorld exampleBox [''/box/prog''] exampleConf 3),
              Slept runErrTimeout]"
    by (rule conjunct2)
  have e3: "map (\<lambda>e. case e of Slept ms \<Rightarrow> Some ms | _ \<Rightarrow> None) (filter is_run_or_sleep evs)
            = [None, Some 200, None, Some 200, None, Some 200]"
    unfolding e2 by (simp add: runErrTimeout_def)
  have e4: "fst (outcome_of exampleLib (Run xxWorld 3 params))
            = Some \<lparr>Memory = 0, ExitCode = 0, ExitSignal = 0, Killed = False,
                     Message = ''Cannot run proxy'', Status = ''XX'', Time = 0,
                     InternalMessage = ''Cannot run proxy''\<rparr>" for params
    by (simp add: xxWorld_def outcome_xx)
  show ?thesis
    by (intro exI [of _ evs] conjI) (rule e1 [unfolded e4], rule e3)
qed

text \<open>
  C1 as stated fails when no temporary file can be created: each of the three attempts
  ends at \<open>continue\<close> before isolate is run, so none yields a report, and \<open>RunCommand\<close>
  returns no report and no error without having slept once.
\<close>

theorem RunCommand_no_temp_counterexample:
  "RunCommand exampleLib noTempWorld exampleBox [''/box/prog''] exampleConf
     = (Returns (None, None),
        [Logged TempFileProblem, Logged TempFileProblem, Logged TempFileProblem],
        exampleConf)
   \<and> filter is_run_or_sleep [Logged TempFileProblem, Logged TempFileProblem, Logged TempFileProblem]
       = []"
proof -
  have a: "attempt exampleLib noTempWorld exampleBox [''/box/prog''] i st
             = Continue (st\<lparr>events := events st @ [Logged TempFileProblem]\<rparr>)" for i st
    by (simp add: attempt_def noTempWorld_def)
  have le: "(1::nat) \<le> runErrRetries" "(1::nat) + 1 \<le> runErrRetries"
    "(1::nat) + 1 + 1 \<le> runErrRetries" and gt: "runErrRetries < (1::nat) + 1 + 1 + 1"
    by (simp_all add: runErrRetries_def)
  have l: "RunCommand_loop exampleLib noTempWorld exampleBox [''/box/prog''] 1
             \<lparr>conf = exampleConf, meta = None, deferred = [], events = []\<rparr>
           = ((None, None),
              \<lparr>conf = exampleConf, meta = None, deferred = [],
               events = [Logged TempFileProblem, Logged TempFileProblem, Logged TempFileProblem]\<rparr>)"
    unfolding loop_continue [OF le(1) a] loop_continue [OF le(2) a] loop_continue [OF le(3) a]
      loop_stop [OF gt]
    by simp
  have s: "Stat noTempWorld p = StatOk" for p
    by (simp add: noTempWorld_def)
  show ?thesis
    unfolding RunCommand_def list.case Let_def s StatError.case if_cancel l by simp
qed

text \<open>
  C7, as amended. An attempt whose report is not nil, has a status other than \<open>XX\<close> and
  exit code 127, while isolate's output contains \<open>execve\<close>, does not return: the runner
  sleeps \<open>runErrTimeout\<close> and goes on to the next pass of the loop, so the attempt is
  used up. On attempts 1 and 2 the next pass makes another attempt. On attempt 3 the loop
  ends and \<open>RunCommand\<close> returns that report with no error.
\<close>

theorem exec_failure_is_transient:
  assumes "CreateTemp w i = Some name"
    and "exec_failed (outcome_of lib (Run w i (attempt_params lib w b command (conf st) i)))"
  shows "let params = attempt_params lib w b command (conf st) i;
             st' = st\<lparr>conf := withDefaults (conf st), meta := fst (outcome_of lib (Run w i params)),
                      deferred := name # deferred st,
                      events := events st @ run_events (Run w i params) params name
                                  @ [Slept runErrTimeout]\<rparr>
         in attempt lib w b command i st = Continue st'
            \<and> (i < runErrRetries \<longrightarrow>
                 RunCommand_loop lib w b command i st
                   = (case attempt lib w b command (i + 1) st' of
                        Continue st'' \<Rightarrow> RunCommand_loop lib w b command (i + 1 + 1) st''
                      | Return r st'' \<Rightarrow> (r, st'')))
            \<and> (i = runErrRetries \<longrightarrow>
                 RunCommand_loop lib w b command i st
                   = ((fst (outcome_of lib (Run w i params)), None), st'))"
proof -
  define params where "params = attempt_params lib w b command (conf st) i"
  define st' where "st' = st\<lparr>conf := withDefaults (conf st),
                      meta := fst (outcome_of lib (Run w i params)),
                      deferred := name # deferred st,
                      events := events st @ run_events (Run w i params) params name
                                  @ [Slept runErrTimeout]\<rparr>"
  have a: "attempt lib w b command i st = Continue st'"
    using assms(2) by (simp add: attempt_unfold [OF assms(1)] Let_def st'_def params_def)
  have m: "meta st' = fst (outcome_of lib (Run w i params))"
    by (simp add: st'_def)
  have more: "RunCommand_loop lib w b command i st
                = (case attempt lib w b command (i + 1) st' of
                     Continue st'' \<Rightarrow> RunCommand_loop lib w b command (i + 1 + 1) st''
                   | Return r st'' \<Rightarrow> (r, st''))" if "i < runErrRetries"
  proof -
    from that have le: "i \<le> runErrRetries" and le': "i + 1 \<le> runErrRetries"
      by simp_all
    show ?thesis
      unfolding loop_continue [OF le a] by (rule loop_unfold [OF le'])
  qed
  have last: "RunCommand_loop lib w b command i st
                = ((fst (outcome_of lib (Run w i params)), None), st')" if "i = runErrRetries"
  proof -
    from that have le: "i \<le> runErrRetries" and gt: "runErrRetries < i + 1"
      by simp_all
    show ?thesis
      unfolding loop_continue [OF le a] loop_stop [OF gt] m ..
  qed
  from a more last show ?thesis
    unfolding Let_def params_def [symmetric] st'_def [symmetric] by blast
qed


lemma busy_exec_failed:
  "exec_failed (Some \<lparr>Memory = 0, ExitCode = 127, ExitSignal = 0, Killed = False,
                        Message = [], Status = ''RE'', Time = 0 :: int,
                        InternalMessage = ''execve(/box/prog): Text file busy''\<rparr>, None)"
  by (simp add: exec_failed_def)

text \<open>The theorem on the third attempt, with the configuration of the example.\<close>

theorem exec_failure_is_transient_witness:
  "RunCommand_loop exampleLib busyWorld exampleBox [''/box/prog''] 3
     \<lparr>conf = exampleConf, meta = None, deferred = [], events = []\<rparr>
   = ((Some \<lparr>Memory = 0, ExitCode = 127, ExitSignal = 0, Killed = False,
              Message = [], Status = ''RE'', Time = 0,
              InternalMessage = ''execve(/box/prog): Text file busy''\<rparr>, None),
      \<lparr>conf = exampleConf,
       meta = Some \<lparr>Memory = 0, ExitCode = 127, ExitSignal = 0, Killed = False,
              Message = [], Status = ''RE'', Time = 0,
              InternalMessage = ''execve(/box/prog): Text file busy''\<rparr>,
       deferred = [''/tmp/sandbox-meta-1''],
       events =
         [Spawned [''--box-id=50'', ''--cg'', ''--processes'', ''--full-env'', ''--time=2'',
                   ''--wall-time=3'', ''--cg-mem=1048576'', ''--stdin=/box/prog.in'',
                   ''--stdout=/box/prog.out'', ''--stderr-to-stdout'',
                   ''--meta=/tmp/sandbox-meta-1'', ''--silent'', ''--run'', ''--'', ''/box/prog''],
          Removed ''/tmp/sandbox-meta-1'', Slept 200]\<rparr>)"
proof -
  have t: "CreateTemp busyWorld 3 = Some ''/tmp/sandbox-meta-1''"
    and o: "rangeOrder busyWorld 3 = []"
    and r: "Run busyWorld 3 params = busyProcess" for params
    by (simp_all add: busyWorld_def)
  have f: "exec_failed (outcome_of exampleLib (Run busyWorld 3
             (attempt_params exampleLib busyWorld exampleBox [''/box/prog'']
                (conf \<lparr>conf = exampleConf, meta = None, deferred = [], events = []\<rparr>) 3)))"
    unfolding r outcome_busy by (rule busy_exec_failed)
  have e: "run_events busyProcess params name = [Spawned params, Removed name]" for params name
    by (simp add: run_events_def busyProcess_def)
  from exec_failure_is_transient [OF t f] show ?thesis
    by (simp add: Let_def r outcome_busy example_params [OF t o] exampleConf_defaults
        runErrRetries_def runErrTimeout_def e)
qed

text \<open>
  C7 as stated fails on the last attempt: isolate is run three times, the third run is a
  failed exec, and \<open>RunCommand\<close> returns the report of that run, with no error, after
  the third sleep. There is no further attempt.
\<close>

theorem exec_failure_last_attempt_counterexample:
  "exec_failed (outcome_of exampleLib (Run busyWorld 3
      (attempt_params exampleLib busyWorld exampleBox [''/box/prog''] exampleConf 3)))
   \<and> (\<exists>evs. RunCommand exampleLib busyWorld exampleBox [''/box/prog''] exampleConf
              = (Returns (outcome_of exampleLib (Run busyWorld 3
                   (attempt_params exampleLib busyWorld exampleBox [''/box/prog''] exampleConf 3))),
                 evs, exampleConf)
        \<and> map (\<lambda>e. case e of Slept ms \<Rightarrow> Some ms | _ \<Rightarrow> None) (filter is_run_or_sleep evs)
            = [None, Some 200, None, Some 200, None, Some 200])"
proof -
  have t: "CreateTemp busyWorld i = Some ''/tmp/sandbox-meta-1''" for i
    by (simp add: busyWorld_def)
  have r3: "Run busyWorld 3 params = busyProcess"
    and r1: "Run busyWorld 1 params = xxProcess"
    and r2: "Run busyWorld 2 params = xxProcess" for params
    by (simp_all add: busyWorld_def)
  have f: "exec_failed (outcome_of exampleLib (Run busyWorld 3 params))" for params
    unfolding r3 outcome_busy by (rule busy_exec_failed)
  have x: "not_accepted (outcome_of exampleLib xxProcess)"
    by (simp add: outcome_xx not_accepted_def rejected_def)
  have n3: "not_accepted (outcome_of exampleLib (Run busyWorld 3 params))" for params
    using f by (simp add: not_accepted_def)
  have n1: "not_accepted (outcome_of exampleLib (Run busyWorld 1 params))"
    and n2: "not_accepted (outcome_of exampleLib (Run busyWorld 2 params))" for params
    unfolding r1 r2 by (rule x)+
  have ne: "[''/box/prog''] \<noteq> []"
    by simp
  from RunCommand_all_not_accepted [OF ne t t t n1 n2 n3, of exampleBox exampleConf,
      unfolded exampleConf_defaults r3]
  obtain evs where
    e: "RunCommand exampleLib busyWorld exampleBox [''/box/prog''] exampleConf
           = (Returns (fst (outcome_of exampleLib busyProcess), None), evs, exampleConf)
      \<and> filter is_run_or_sleep evs
           = [Spawned (attempt_params exampleLib busyWorld exampleBox [''/box/prog''] exampleConf 1),
              Slept runErrTimeout,
              Spawned (attempt_params exampleLib busyWorld exampleBox [''/box/prog''] exampleConf 2),
              Slept runErrTimeout,
              Spawned (attempt_params exampleLib busyWorld exampleBox [''/box/prog''] exampleConf 3),
              Slept runErrTimeout]"
    ..
  from e have e1: "RunCommand exampleLib busyWorld exampleBox [''/box/prog''] exampleConf
           = (Returns (fst (outcome_of exampleLib busyProcess), None), evs, exampleConf)"
    by (rule conjunct1)
  from e have e2: "filter is_run_or_sleep evs
           = [Spawned (attempt_params exampleLib busyWorld exampleBox [''/box/prog''] exampleConf 1),
              Slept runErrTimeout,
              Spawned (attempt_params exampleLib busyWorld exampleBox [''/box/prog''] exampleConf 2),
              Slept runErrTimeout,
              Spawned (attempt_params exampleLib busyWorld exampleBox [''/box/prog''] exampleConf 3),
              Slept runErrTimeout]"
    by (rule conjunct2)
  have e3: "map (\<lambda>e. case e of Slept ms \<Rightarrow> Some ms | _ \<Rightarrow> None) (filter is_run_or_sleep evs)
            = [None, Some 200, None, Some 200, None, Some 200]"
    unfolding e2 by (simp add: runErrTimeout_def)
  have e4: "(fst (outcome_of exampleLib busyProcess), None) = outcome_of exampleLib busyProcess"
    by (simp add: outcome_busy)
  show ?thesis
    unfolding r3
    by (intro exI [of _ evs] conjI) (rule f [unfolded r3], rule e1 [unfolded e4], rule e3)
qed

end
